theory Spec2Isabelle
  imports Main
begin

section \<open>Python strings\<close>

text \<open>
  A Python \<open>str\<close> is a sequence of code points. The model covers the code points
  below 256, one \<^typ>\<open>char\<close> each, so a \<open>str\<close> is a \<^typ>\<open>string\<close>.
  On that range \<open>str.strip()\<close> removes the characters for which \<open>str.isspace\<close>
  holds (TAB to CR, FS to US, space, NEL, NBSP), \<open>str.lower()\<close> maps \<open>A\<close>..\<open>Z\<close>
  and the Latin-1 capitals (all of 0xC0..0xDE but the multiplication sign 0xD7) 32 places up,
  and \<open>encode("utf-8")\<close> gives one byte below 128 and two bytes from 128 on.
  These are Python's functions; the \<open>lower()\<close> of the datastore, which
  \<open>func.lower\<close> calls, is another function (see \<open>sql_lower\<close> below).
\<close>

definition isspace :: "char \<Rightarrow> bool" where
  "isspace c =
     (let n = (of_char c :: nat)
      in (9 \<le> n \<and> n \<le> 13) \<or> (28 \<le> n \<and> n \<le> 32) \<or> n = 133 \<or> n = 160)"

definition lower_char :: "char \<Rightarrow> char" where
  "lower_char c =
     (let n = (of_char c :: nat)
      in if (65 \<le> n \<and> n \<le> 90) \<or> (192 \<le> n \<and> n \<le> 222 \<and> n \<noteq> 215)
         then char_of (n + 32) else c)"

definition lower :: "string \<Rightarrow> string" where
  "lower s = map lower_char s"

definition strip :: "string \<Rightarrow> string" where
  "strip s = rev (dropWhile isspace (rev (dropWhile isspace s)))"

definition encode_utf8 :: "string \<Rightarrow> nat list" where
  "encode_utf8 s =
     concat (map (\<lambda>c. let n = (of_char c :: nat)
                      in if n < 128 then [n] else [192 + n div 64, 128 + n mod 64]) s)"

section \<open>Data model\<close>

text \<open>
  Modelled from the spec: \<open>app.models\<close> (the classes \<open>Hospital\<close>, \<open>User\<close> and
  \<open>AuditLog\<close>) is not among the sources. The records carry the columns that the routers
  read or write, under the routers' names with a prefix per table, as section 3 of the
  specification lists them. A flag column is \<open>None\<close> when it is null. The tables of the
  datastore are lists of rows in the order in which a query returns them.
\<close>

record hospital =
  h_id :: int
  h_hospital_id :: string
  h_name :: string
  h_email :: string
  h_address :: "string option"
  h_is_active :: "bool option"

record user =
  u_id :: int
  u_hospital_id :: int
  u_username :: string
  u_email :: "string option"
  u_password_hash :: string
  u_role :: string
  u_full_name :: "string option"
  u_status :: "bool option"
  u_last_login :: "nat option"

record audit_log =
  a_user_id :: "int option"
  a_action :: string
  a_details :: "(string \<times> string) list option"
  a_ip_address :: string

record db =
  hospitals :: "hospital list"
  users :: "user list"
  audit_logs :: "audit_log list"

text \<open>
  Modelled from the spec: \<open>app.schemas\<close> (\<open>LoginRequest\<close>, \<open>HospitalCreate\<close>,
  \<open>UserCreate\<close>, \<open>TokenResponse\<close>) is not among the sources; the fields are the ones the
  routers read (section 6 of the specification). A password is \<open>None\<close> when the value
  received is not a \<open>str\<close>, the case the routers test with \<open>isinstance\<close>.
\<close>

record login_request =
  lr_hospital_id :: string
  lr_username :: string
  lr_password :: "string option"

record token_response =
  tr_access_token :: string
  tr_role :: string
  tr_full_name :: "string option"
  tr_hospital_id :: string

record hospital_create =
  hc_register_secret :: string
  hc_hospital_id :: string
  hc_name :: string
  hc_email :: string
  hc_address :: "string option"
  hc_admin_username :: string
  hc_admin_password :: "string option"
  hc_admin_full_name :: "string option"

record user_create =
  uc_username :: string
  uc_email :: "string option"
  uc_password :: "string option"
  uc_role :: string
  uc_full_name :: "string option"

text \<open>
  The errors of the routers: each \<open>HTTPException\<close> of the source by status and detail,
  and \<open>Unhandled\<close> for an exception that leaves the handler uncaught (the framework
  answers 500).
\<close>

datatype error =
    InvalidCredentials
  | InvalidRegisterSecret
  | InvalidPasswordType
  | PasswordTooLong
  | HospitalIdExists
  | RecordExists
  | UnexpectedServerError
  | InvalidRole
  | UserNotFound
  | Unhandled

fun status_code :: "error \<Rightarrow> nat" where
  "status_code InvalidCredentials = 401"
| "status_code InvalidRegisterSecret = 403"
| "status_code InvalidPasswordType = 400"
| "status_code PasswordTooLong = 400"
| "status_code HospitalIdExists = 409"
| "status_code RecordExists = 409"
| "status_code UnexpectedServerError = 500"
| "status_code InvalidRole = 400"
| "status_code UserNotFound = 404"
| "status_code Unhandled = 500"

section \<open>Collaborators\<close>

text \<open>
  What the routers take from outside the repository's sources is a parameter:
  \<open>settings.register_secret\<close>; the two primitives of \<open>pwd_ctx\<close> (passlib), each
  \<open>None\<close> where the call raises; \<open>create_access_token\<close> of \<open>app.dependencies\<close>;
  the values the datastore gives to the flag columns that a constructor call leaves unset
  (the column defaults of \<open>app.models\<close>); \<open>datetime.utcnow()\<close>; and the
  \<open>lower()\<close> of the datastore, which \<open>func.lower\<close> applies to a stored column and
  whose result depends on the locale of the database.
\<close>

record deps =
  register_secret :: string
  sql_lower :: "string \<Rightarrow> string"
  pwd_hash :: "string \<Rightarrow> string option"
  pwd_verify :: "string \<Rightarrow> string \<Rightarrow> bool option"
  create_access_token :: "int \<Rightarrow> string \<Rightarrow> string \<Rightarrow> string"
  hospital_is_active_default :: "bool option"
  user_status_default :: "bool option"
  utcnow :: nat

text \<open>The calls a handler makes to \<open>pwd_ctx\<close>, in order.\<close>

datatype hasher_call = HashCall string | VerifyCall string string

text \<open>
  The datastore is PostgreSQL, reached through asyncpg (\<open>database_url\<close> of
  \<open>config.py\<close>). It refuses a text value that contains the NUL character: the call that
  sends one, as a parameter of a query or as a column of a row, raises an exception that
  is not an \<open>IntegrityError\<close>. The lengths and constraints of the columns are declared
  in \<open>app.models\<close>, which is not among the sources, and are not modelled.
\<close>

definition pg_text :: "string \<Rightarrow> bool" where
  "pg_text s = (CHR 0x00 \<notin> set s)"

definition pg_text_opt :: "string option \<Rightarrow> bool" where
  "pg_text_opt x = (case x of None \<Rightarrow> True | Some s \<Rightarrow> pg_text s)"

text \<open>What a query does: it raises, or it returns its result.\<close>

datatype 'a query = Raises | Returned 'a

text \<open>
  What an awaited datastore call inside the \<open>try\<close> block of \<open>register_hospital\<close> does
  on the part of the environment: it returns, raises \<open>IntegrityError\<close>, or raises
  another exception. Outside that block the source has no handler, and a call whose values
  the datastore accepts is taken to return.
\<close>

datatype db_outcome = Returns | RaisesIntegrityError | RaisesOther

record register_env =
  flush_outcome :: db_outcome
  commit_outcome :: db_outcome
  refresh_hospital_outcome :: db_outcome
  refresh_admin_outcome :: db_outcome

text \<open>
  Modelled from the spec: the numeric ids are generated by the datastore (section 4.2,
  step 4 of the specification); the model issues the successor of the largest id of the
  table, and 1 for an empty table.
\<close>

definition next_id :: "int list \<Rightarrow> int" where
  "next_id ids = fold max ids 0 + 1"

text \<open>The row an ORM object stands for is updated in place: the first row that matches.\<close>

fun update_first :: "('a \<Rightarrow> bool) \<Rightarrow> ('a \<Rightarrow> 'a) \<Rightarrow> 'a list \<Rightarrow> 'a list" where
  "update_first P f [] = []"
| "update_first P f (x # xs) = (if P x then f x # xs else x # update_first P f xs)"

text \<open>Python's truth value of a nullable flag: \<open>None\<close> and \<open>False\<close> are false.\<close>

fun truthy :: "bool option \<Rightarrow> bool" where
  "truthy None = False"
| "truthy (Some b) = b"

text \<open>\<open>str(x).strip() if x else None\<close>: \<open>None\<close> and the empty string are false.\<close>

definition strip_if :: "string option \<Rightarrow> string option" where
  "strip_if x = (case x of None \<Rightarrow> None | Some s \<Rightarrow> if s = [] then None else Some (strip s))"

section \<open>routers/auth.py\<close>

text \<open>
  The query of lines 31 to 34 and of line 104: the datastore lowercases the stored id,
  Python the id supplied, which is the parameter of the query; \<open>first()\<close> gives the
  first row or \<open>None\<close>.
\<close>

definition find_hospital :: "deps \<Rightarrow> string \<Rightarrow> db \<Rightarrow> hospital option query" where
  "find_hospital d norm_hosp_id s =
     (if pg_text (lower norm_hosp_id)
      then Returned (find (\<lambda>h. sql_lower d (h_hospital_id h) = lower norm_hosp_id) (hospitals s))
      else Raises)"

text \<open>The query of lines 43 to 49; its text parameter is the normalized username.\<close>

definition login_user_match :: "deps \<Rightarrow> string \<Rightarrow> hospital \<Rightarrow> user \<Rightarrow> bool" where
  "login_user_match d norm_username hospital u =
     (sql_lower d (u_username u) = norm_username \<and> u_hospital_id u = h_id hospital)"

definition find_user :: "deps \<Rightarrow> string \<Rightarrow> hospital \<Rightarrow> db \<Rightarrow> user option query" where
  "find_user d norm_username hospital s =
     (if pg_text norm_username
      then Returned (find (login_user_match d norm_username hospital) (users s))
      else Raises)"

definition login_failed_entry :: "string \<Rightarrow> string \<Rightarrow> string \<Rightarrow> audit_log" where
  "login_failed_entry norm_username norm_hosp_id client_host =
     \<lparr>a_user_id = None, a_action = ''LOGIN_FAILED'',
      a_details = Some [(''username'', norm_username), (''hospital_id'', norm_hosp_id)],
      a_ip_address = client_host\<rparr>"

definition login_success_entry :: "user \<Rightarrow> string \<Rightarrow> audit_log" where
  "login_success_entry u client_host =
     \<lparr>a_user_id = Some (u_id u), a_action = ''LOGIN_SUCCESS'', a_details = None,
      a_ip_address = client_host\<rparr>"

text \<open>
  Lines 52 to 56 of \<open>login\<close>: the audit row is added and committed, then 401 is raised.
  The texts of the row are the two parameters that the queries have accepted and
  \<open>request.client.host\<close>, the peer address that the server reports.
\<close>

definition audit_failed_login ::
  "string \<Rightarrow> string \<Rightarrow> string \<Rightarrow> db \<Rightarrow> hasher_call list \<Rightarrow>
   (error + token_response) \<times> db \<times> hasher_call list" where
  "audit_failed_login norm_username norm_hosp_id client_host s cs =
     (Inl InvalidCredentials,
      s\<lparr>audit_logs := audit_logs s @ [login_failed_entry norm_username norm_hosp_id client_host]\<rparr>,
      cs)"

text \<open>Lines 59 to 73 of \<open>login\<close>.\<close>

definition login_succeeded ::
  "deps \<Rightarrow> string \<Rightarrow> string \<Rightarrow> string \<Rightarrow> hospital \<Rightarrow> user \<Rightarrow> db \<Rightarrow> hasher_call list \<Rightarrow>
   (error + token_response) \<times> db \<times> hasher_call list" where
  "login_succeeded d norm_username norm_hosp_id client_host hospital u s cs =
     (Inr \<lparr>tr_access_token = create_access_token d (u_id u) (u_role u) norm_hosp_id,
           tr_role = u_role u, tr_full_name = u_full_name u, tr_hospital_id = norm_hosp_id\<rparr>,
      s\<lparr>users := update_first (login_user_match d norm_username hospital)
                    (\<lambda>r. r\<lparr>u_last_login := Some (utcnow d)\<rparr>) (users s),
        audit_logs := audit_logs s @ [login_success_entry u client_host]\<rparr>,
      cs)"

definition login ::
  "deps \<Rightarrow> string \<Rightarrow> login_request \<Rightarrow> db \<Rightarrow>
   (error + token_response) \<times> db \<times> hasher_call list" where
  "login d client_host payload s =
     (let norm_hosp_id = strip (lr_hospital_id payload);
          norm_username = lower (strip (lr_username payload))
      in case lr_password payload of
           None \<Rightarrow> (Inl InvalidCredentials, s, [])
         | Some raw_password \<Rightarrow>
             if length (encode_utf8 raw_password) > 72 then (Inl InvalidCredentials, s, [])
             else
               (case find_hospital d norm_hosp_id s of
                  Raises \<Rightarrow> (Inl Unhandled, s, [])
                | Returned None \<Rightarrow> (Inl InvalidCredentials, s, [])
                | Returned (Some hospital) \<Rightarrow>
                    if h_is_active hospital = Some False then (Inl InvalidCredentials, s, [])
                    else
                      (case find_user d norm_username hospital s of
                         Raises \<Rightarrow> (Inl Unhandled, s, [])
                       | Returned None \<Rightarrow>
                           audit_failed_login norm_username norm_hosp_id client_host s []
                       | Returned (Some u) \<Rightarrow>
                           if u_status u = Some False
                           then audit_failed_login norm_username norm_hosp_id client_host s []
                           else
                             (case pwd_verify d raw_password (u_password_hash u) of
                                None \<Rightarrow>
                                  (Inl Unhandled, s, [VerifyCall raw_password (u_password_hash u)])
                              | Some False \<Rightarrow>
                                  audit_failed_login norm_username norm_hosp_id client_host s
                                    [VerifyCall raw_password (u_password_hash u)]
                              | Some True \<Rightarrow>
                                  login_succeeded d norm_username norm_hosp_id client_host
                                    hospital u s
                                    [VerifyCall raw_password (u_password_hash u)]))))"

text \<open>
  The rows that \<open>register_hospital\<close> builds at lines 113 to 131. The hospital's numeric id
  is the one the flush obtains; the admin's is generated at the commit.
\<close>

definition new_hospital :: "deps \<Rightarrow> hospital_create \<Rightarrow> db \<Rightarrow> hospital" where
  "new_hospital d payload s =
     \<lparr>h_id = next_id (map h_id (hospitals s)),
      h_hospital_id = strip (hc_hospital_id payload),
      h_name = strip (hc_name payload),
      h_email = lower (strip (hc_email payload)),
      h_address = strip_if (hc_address payload),
      h_is_active = hospital_is_active_default d\<rparr>"

definition new_admin :: "deps \<Rightarrow> hospital_create \<Rightarrow> string \<Rightarrow> hospital \<Rightarrow> db \<Rightarrow> user" where
  "new_admin d payload hashed_password hosp s =
     \<lparr>u_id = next_id (map u_id (users s)),
      u_hospital_id = h_id hosp,
      u_username = lower (strip (hc_admin_username payload)),
      u_email = Some (lower (strip (hc_email payload))),
      u_password_hash = hashed_password,
      u_role = ''admin'',
      u_full_name = (case strip_if (hc_admin_full_name payload) of
                       None \<Rightarrow> Some ''Administrator'' | Some n \<Rightarrow> Some n),
      u_status = user_status_default d,
      u_last_login = None\<rparr>"

text \<open>The rows whose text columns the datastore accepts.\<close>

definition hospital_storable :: "hospital \<Rightarrow> bool" where
  "hospital_storable h =
     (pg_text (h_hospital_id h) \<and> pg_text (h_name h) \<and> pg_text (h_email h) \<and>
      pg_text_opt (h_address h))"

definition user_storable :: "user \<Rightarrow> bool" where
  "user_storable u =
     (pg_text (u_username u) \<and> pg_text_opt (u_email u) \<and> pg_text (u_password_hash u) \<and>
      pg_text (u_role u) \<and> pg_text_opt (u_full_name u))"

text \<open>
  The two \<open>except\<close> clauses of \<open>register_hospital\<close>: \<open>db.rollback()\<close>, then 409 for an
  \<open>IntegrityError\<close> and 500 for any other exception. The rollback discards what the
  session has not committed, so the handler is given the committed state.
\<close>

fun raised :: "db_outcome \<Rightarrow> error" where
  "raised RaisesIntegrityError = RecordExists"
| "raised _ = UnexpectedServerError"

definition register_hospital ::
  "deps \<Rightarrow> register_env \<Rightarrow> hospital_create \<Rightarrow> db \<Rightarrow>
   (error + string \<times> string) \<times> db \<times> hasher_call list" where
  "register_hospital d env payload s =
     (if hc_register_secret payload \<noteq> register_secret d then (Inl InvalidRegisterSecret, s, [])
      else
        let norm_hosp_id = strip (hc_hospital_id payload)
        in case hc_admin_password payload of
             None \<Rightarrow> (Inl InvalidPasswordType, s, [])
           | Some raw_password \<Rightarrow>
               if length (encode_utf8 raw_password) > 72 then (Inl PasswordTooLong, s, [])
               else
                 (case find_hospital d norm_hosp_id s of
                    Raises \<Rightarrow> (Inl Unhandled, s, [])
                  | Returned (Some existing) \<Rightarrow> (Inl HospitalIdExists, s, [])
                  | Returned None \<Rightarrow>
                      (case pwd_hash d raw_password of
                         None \<Rightarrow> (Inl UnexpectedServerError, s, [HashCall raw_password])
                       | Some hashed_password \<Rightarrow>
                           let hosp = new_hospital d payload s;
                               admin = new_admin d payload hashed_password hosp s;
                               committed = s\<lparr>hospitals := hospitals s @ [hosp],
                                             users := users s @ [admin]\<rparr>;
                               cs = [HashCall raw_password]
                           in if \<not> hospital_storable hosp
                              then (Inl UnexpectedServerError, s, cs)
                              else if flush_outcome env \<noteq> Returns
                              then (Inl (raised (flush_outcome env)), s, cs)
                              else if \<not> user_storable admin
                              then (Inl UnexpectedServerError, s, cs)
                              else if commit_outcome env \<noteq> Returns
                              then (Inl (raised (commit_outcome env)), s, cs)
                              else if refresh_hospital_outcome env \<noteq> Returns
                              then (Inl (raised (refresh_hospital_outcome env)), committed, cs)
                              else if refresh_admin_outcome env \<noteq> Returns
                              then (Inl (raised (refresh_admin_outcome env)), committed, cs)
                              else (Inr (''Hospital '' @ norm_hosp_id @
                                           '' registered successfully'', norm_hosp_id),
                                    committed, cs))))"

text \<open>A series of registration requests, served one after the other.\<close>

fun register_all ::
  "deps \<Rightarrow> (register_env \<times> hospital_create) list \<Rightarrow> db \<Rightarrow>
   (error + string \<times> string) list \<times> db" where
  "register_all d [] s = ([], s)"
| "register_all d ((env, payload) # rest) s =
     (case register_hospital d env payload s of
        (r, s', cs) \<Rightarrow> (case register_all d rest s' of (rs, s'') \<Rightarrow> (r # rs, s'')))"

section \<open>routers/users.py\<close>

text \<open>
  \<open>current_user\<close> is the row that the dependency \<open>require_admin\<close> of
  \<open>app.dependencies\<close> resolves from the request's token; the handlers take it as given.
\<close>

definition list_users :: "user \<Rightarrow> db \<Rightarrow> user list" where
  "list_users current_user s =
     filter (\<lambda>u. u_hospital_id u = u_hospital_id current_user) (users s)"

text \<open>The row that \<open>create_user\<close> builds at lines 47 to 54; its id is generated at the commit.\<close>

definition new_user :: "deps \<Rightarrow> user_create \<Rightarrow> string \<Rightarrow> user \<Rightarrow> db \<Rightarrow> user" where
  "new_user d payload hashed_password current_user s =
     \<lparr>u_id = next_id (map u_id (users s)),
      u_hospital_id = u_hospital_id current_user,
      u_username = lower (strip (uc_username payload)),
      u_email = (case strip_if (uc_email payload) of
                   None \<Rightarrow> None | Some e \<Rightarrow> Some (lower e)),
      u_password_hash = hashed_password,
      u_role = uc_role payload,
      u_full_name = strip_if (uc_full_name payload),
      u_status = user_status_default d,
      u_last_login = None\<rparr>"

text \<open>The tuple of line 33.\<close>

definition allowed_roles :: "string set" where
  "allowed_roles = {''admin'', ''doctor'', ''staff''}"

definition create_user ::
  "deps \<Rightarrow> user_create \<Rightarrow> user \<Rightarrow> db \<Rightarrow> (error + user) \<times> db \<times> hasher_call list" where
  "create_user d payload current_user s =
     (if uc_role payload \<notin> allowed_roles then (Inl InvalidRole, s, [])
      else case uc_password payload of
             None \<Rightarrow> (Inl PasswordTooLong, s, [])
           | Some raw_password \<Rightarrow>
               if length (encode_utf8 raw_password) > 72 then (Inl PasswordTooLong, s, [])
               else
                 (case pwd_hash d raw_password of
                    None \<Rightarrow> (Inl Unhandled, s, [HashCall raw_password])
                  | Some hashed_password \<Rightarrow>
                      let u = new_user d payload hashed_password current_user s
                      in if \<not> user_storable u then (Inl Unhandled, s, [HashCall raw_password])
                         else (Inr u, s\<lparr>users := users s @ [u]\<rparr>, [HashCall raw_password])))"

definition toggle_match :: "int \<Rightarrow> user \<Rightarrow> user \<Rightarrow> bool" where
  "toggle_match user_id current_user u =
     (u_id u = user_id \<and> u_hospital_id u = u_hospital_id current_user)"

text \<open>
  \<open>scalar_one_or_none()\<close> returns the only row of the result, \<open>None\<close> for an empty
  result, and raises \<open>MultipleResultsFound\<close> for more than one row.
\<close>

definition toggle_user_status :: "int \<Rightarrow> user \<Rightarrow> db \<Rightarrow> (error + user) \<times> db" where
  "toggle_user_status user_id current_user s =
     (case filter (toggle_match user_id current_user) (users s) of
        [] \<Rightarrow> (Inl UserNotFound, s)
      | [u] \<Rightarrow>
          (Inr (u\<lparr>u_status := Some (\<not> truthy (u_status u))\<rparr>),
           s\<lparr>users := update_first (toggle_match user_id current_user)
                         (\<lambda>r. r\<lparr>u_status := Some (\<not> truthy (u_status r))\<rparr>) (users s)\<rparr>)
      | _ \<Rightarrow> (Inl Unhandled, s))"

section \<open>Example data\<close>

text \<open>
  A toy hasher (it raises on a NUL character, as bcrypt does), a database whose
  \<open>lower()\<close> agrees with Python's, a datastore whose calls all return, and a datastore with three hospitals: \<open>h1\<close> is active, \<open>h2\<close> is
  deactivated, and the active flag of \<open>h3\<close> is null.
\<close>

definition example_deps :: deps where
  "example_deps =
     \<lparr>register_secret = ''vitasage-bootstrap-secret'',
      sql_lower = lower,
      pwd_hash = (\<lambda>p. if CHR 0x00 \<in> set p then None else Some (''$2b$'' @ p)),
      pwd_verify = (\<lambda>p h. if CHR 0x00 \<in> set p then None else Some (h = ''$2b$'' @ p)),
      create_access_token = (\<lambda>uid role hid. role @ ''@'' @ hid),
      hospital_is_active_default = Some True,
      user_status_default = Some True,
      utcnow = 1000\<rparr>"

definition all_return :: register_env where
  "all_return =
     \<lparr>flush_outcome = Returns, commit_outcome = Returns,
      refresh_hospital_outcome = Returns, refresh_admin_outcome = Returns\<rparr>"

definition refresh_fails :: register_env where
  "refresh_fails = all_return\<lparr>refresh_hospital_outcome := RaisesOther\<rparr>"

definition empty_db :: db where
  "empty_db = \<lparr>hospitals = [], users = [], audit_logs = []\<rparr>"

definition register_h1 :: hospital_create where
  "register_h1 =
     \<lparr>hc_register_secret = ''vitasage-bootstrap-secret'', hc_hospital_id = ''h1'',
      hc_name = ''General Hospital'', hc_email = '' Info@H1.example '', hc_address = None,
      hc_admin_username = ''admin'', hc_admin_password = Some ''pw1'',
      hc_admin_full_name = None\<rparr>"

definition hospital_h1 :: hospital where
  "hospital_h1 =
     \<lparr>h_id = 1, h_hospital_id = ''h1'', h_name = ''General Hospital'',
      h_email = ''info@h1.example'', h_address = None, h_is_active = Some True\<rparr>"

definition hospital_h2 :: hospital where
  "hospital_h2 =
     \<lparr>h_id = 2, h_hospital_id = ''h2'', h_name = ''Clinic'',
      h_email = ''info@h2.example'', h_address = None, h_is_active = Some False\<rparr>"

definition hospital_h3 :: hospital where
  "hospital_h3 =
     \<lparr>h_id = 3, h_hospital_id = ''h3'', h_name = ''Ward'',
      h_email = ''info@h3.example'', h_address = None, h_is_active = None\<rparr>"

definition admin_h1 :: user where
  "admin_h1 =
     \<lparr>u_id = 1, u_hospital_id = 1, u_username = ''admin'', u_email = Some ''info@h1.example'',
      u_password_hash = ''$2b$pw1'', u_role = ''admin'', u_full_name = Some ''Administrator'',
      u_status = Some True, u_last_login = None\<rparr>"

definition admin_h2 :: user where
  "admin_h2 =
     \<lparr>u_id = 2, u_hospital_id = 2, u_username = ''admin'', u_email = Some ''info@h2.example'',
      u_password_hash = ''$2b$pw2'', u_role = ''admin'', u_full_name = Some ''Administrator'',
      u_status = Some True, u_last_login = None\<rparr>"

definition nurse_h2 :: user where
  "nurse_h2 =
     \<lparr>u_id = 3, u_hospital_id = 2, u_username = ''nurse'', u_email = None,
      u_password_hash = ''$2b$pw3'', u_role = ''staff'', u_full_name = None,
      u_status = None, u_last_login = None\<rparr>"

definition admin_h3 :: user where
  "admin_h3 =
     \<lparr>u_id = 4, u_hospital_id = 3, u_username = ''admin'', u_email = Some ''info@h3.example'',
      u_password_hash = ''$2b$pw4'', u_role = ''admin'', u_full_name = Some ''Administrator'',
      u_status = Some True, u_last_login = None\<rparr>"

definition db_h1 :: db where
  "db_h1 = \<lparr>hospitals = [hospital_h1], users = [admin_h1], audit_logs = []\<rparr>"

definition db_three :: db where
  "db_three =
     \<lparr>hospitals = [hospital_h1, hospital_h2, hospital_h3],
      users = [admin_h1, admin_h2, nurse_h2, admin_h3], audit_logs = []\<rparr>"

text \<open>A password of 37 characters that takes 74 bytes in UTF-8.\<close>

definition long_password :: string where
  "long_password = replicate 37 (CHR 0xE9)"

text \<open>A request to create a doctor in \<open>h1\<close>, and the row it produces in \<open>db_three\<close>.\<close>

definition create_smith :: user_create where
  "create_smith =
     \<lparr>uc_username = '' Dr.Smith '', uc_email = Some ''Smith@H1.example'',
      uc_password = Some ''pw5'', uc_role = ''doctor'', uc_full_name = Some '' Dr Smith''\<rparr>"

definition smith :: user where
  "smith =
     \<lparr>u_id = 5, u_hospital_id = 1, u_username = ''dr.smith'',
      u_email = Some ''smith@h1.example'', u_password_hash = ''$2b$pw5'', u_role = ''doctor'',
      u_full_name = Some ''Dr Smith'', u_status = Some True, u_last_login = None\<rparr>"

text \<open>Login requests against \<open>db_h1\<close> and \<open>db_three\<close>.\<close>

definition login_h1 :: login_request where
  "login_h1 = \<lparr>lr_hospital_id = ''H1 '', lr_username = ''Admin'', lr_password = Some ''pw1''\<rparr>"

definition login_h2 :: login_request where
  "login_h2 = \<lparr>lr_hospital_id = ''h2'', lr_username = ''admin'', lr_password = Some ''pw2''\<rparr>"

definition login_h3 :: login_request where
  "login_h3 = \<lparr>lr_hospital_id = '' h3'', lr_username = ''Admin'', lr_password = Some ''pw4''\<rparr>"

definition login_long :: login_request where
  "login_long =
     \<lparr>lr_hospital_id = ''h1'', lr_username = ''admin'', lr_password = Some long_password\<rparr>"

definition login_guess :: login_request where
  "login_guess =
     \<lparr>lr_hospital_id = ''h1'', lr_username = ''Admin '', lr_password = Some ''guess''\<rparr>"

definition login_nowhere :: login_request where
  "login_nowhere =
     \<lparr>lr_hospital_id = ''h9'', lr_username = ''admin'', lr_password = Some ''pw1''\<rparr>"

text \<open>Two more requests for the hospital \<open>h1\<close>, in another case and with spaces.\<close>

definition register_h1_upper :: hospital_create where
  "register_h1_upper =
     \<lparr>hc_register_secret = ''vitasage-bootstrap-secret'', hc_hospital_id = '' H1 '',
      hc_name = ''Another'', hc_email = ''other@h1.example'', hc_address = Some ''1 Main St'',
      hc_admin_username = ''root'', hc_admin_password = Some ''pw9'',
      hc_admin_full_name = Some ''Root''\<rparr>"

text \<open>The datastore before \<open>h1\<close> registers: \<open>h2\<close> and \<open>h3\<close> with their users.\<close>

definition db_others :: db where
  "db_others =
     \<lparr>hospitals = [hospital_h2, hospital_h3], users = [admin_h2, nurse_h2, admin_h3],
      audit_logs = []\<rparr>"

text \<open>
  A database under the \<open>C\<close> locale: its \<open>lower()\<close> changes the letters \<open>A\<close> to
  \<open>Z\<close> only. A hospital whose id begins with a capital E with acute accent (code
  point 0xC9), and the login with the very same id, username and password.
\<close>

definition ascii_lower :: "string \<Rightarrow> string" where
  "ascii_lower s =
     map (\<lambda>c. let n = (of_char c :: nat) in if 65 \<le> n \<and> n \<le> 90 then char_of (n + 32) else c) s"

definition c_locale_deps :: deps where
  "c_locale_deps = example_deps\<lparr>sql_lower := ascii_lower\<rparr>"

definition register_e1 :: hospital_create where
  "register_e1 = register_h1\<lparr>hc_hospital_id := [CHR 0xC9, CHR ''1'']\<rparr>"

definition login_e1 :: login_request where
  "login_e1 =
     \<lparr>lr_hospital_id = [CHR 0xC9, CHR ''1''], lr_username = ''admin'',
      lr_password = Some ''pw1''\<rparr>"

text \<open>
  A users table whose status column has no default: the user that \<open>create_user\<close> stores
  for the request \<open>create_smith\<close> in \<open>db_h1\<close> has a null status.
\<close>

definition null_default_deps :: deps where
  "null_default_deps = example_deps\<lparr>user_status_default := None\<rparr>"

definition smith_null :: user where
  "smith_null = smith\<lparr>u_id := 2, u_status := None\<rparr>"

definition db_smith :: db where
  "db_smith = db_h1\<lparr>users := [admin_h1, smith_null]\<rparr>"

definition login_smith :: login_request where
  "login_smith =
     \<lparr>lr_hospital_id = ''h1'', lr_username = ''Dr.Smith'', lr_password = Some ''pw5''\<rparr>"

text \<open>A request for the registered id \<open>h1\<close> that carries a wrong bootstrap secret.\<close>

definition register_h1_guess :: hospital_create where
  "register_h1_guess = register_h1_upper\<lparr>hc_register_secret := ''guess''\<rparr>"

section \<open>Auxiliary facts\<close>

lemma lower_char_idem: "lower_char (lower_char c) = lower_char c"
proof -
  have "of_char (char_of (of_char c + 32 :: nat)) = (of_char c + 32 :: nat)"
    if "(of_char c :: nat) \<le> 222"
    using that by simp
  then show ?thesis
    by (auto simp: lower_char_def Let_def)
qed

lemma lower_idem: "lower (lower s) = lower s"
  by (simp add: lower_def lower_char_idem)

lemma le_fold_max: "(a::int) \<le> fold max xs a"
  by (induction xs arbitrary: a) (auto intro: order_trans [OF max.cobounded2])

lemma mem_le_fold_max: "x \<in> set xs \<Longrightarrow> (x::int) \<le> fold max xs a"
proof (induction xs arbitrary: a)
  case Nil
  then show ?case by simp
next
  case (Cons y ys)
  show ?case
  proof (cases "x = y")
    case True
    have "y \<le> max y a" by simp
    also have "\<dots> \<le> fold max ys (max y a)" by (rule le_fold_max)
    finally show ?thesis using True by simp
  next
    case False
    with Cons show ?thesis by simp
  qed
qed

lemma next_id_fresh: "next_id ids \<notin> set ids"
  using mem_le_fold_max [of "next_id ids" ids 0] by (auto simp: next_id_def)

lemma filter_single_split:
  "filter P xs = [u] \<Longrightarrow>
   \<exists>pre post. xs = pre @ u # post \<and> (\<forall>x\<in>set pre. \<not> P x) \<and> (\<forall>x\<in>set post. \<not> P x) \<and> P u"
proof (induction xs)
  case Nil
  then show ?case by simp
next
  case (Cons x xs)
  show ?case
  proof (cases "P x")
    case True
    with Cons.prems have "x = u" and "filter P xs = []" by auto
    then have "x # xs = [] @ u # xs \<and> (\<forall>y\<in>set xs. \<not> P y) \<and> P u"
      using True by (auto simp: filter_empty_conv)
    then show ?thesis by (metis empty_iff list.set(1))
  next
    case False
    with Cons obtain pre post where
      "xs = pre @ u # post" "\<forall>x\<in>set pre. \<not> P x" "\<forall>x\<in>set post. \<not> P x" "P u"
      by auto
    with False have "x # xs = (x # pre) @ u # post \<and> (\<forall>y\<in>set (x # pre). \<not> P y)
        \<and> (\<forall>x\<in>set post. \<not> P x) \<and> P u"
      by simp
    then show ?thesis by blast
  qed
qed

lemma update_first_split:
  "\<forall>x\<in>set pre. \<not> P x \<Longrightarrow> P u \<Longrightarrow> update_first P f (pre @ u # post) = pre @ f u # post"
  by (induction pre) auto

lemma find_append_None:
  "find P xs = None \<Longrightarrow> find P (xs @ ys) = find P ys"
  by (induction xs) (auto split: if_splits)

lemma filter_split_single:
  "\<forall>x\<in>set pre. \<not> P x \<Longrightarrow> \<forall>x\<in>set post. \<not> P x \<Longrightarrow> P u \<Longrightarrow>
   filter P (pre @ u # post) = [u]"
  by (simp add: filter_empty_conv)

lemma toggle_match_status [simp]:
  "toggle_match uid cu (u\<lparr>u_status := b\<rparr>) = toggle_match uid cu u"
  by (simp add: toggle_match_def)

lemma toggle_single:
  assumes "users s = pre @ u # post"
    "\<forall>x\<in>set pre. \<not> toggle_match uid cu x" "\<forall>x\<in>set post. \<not> toggle_match uid cu x"
    "toggle_match uid cu u"
  shows "toggle_user_status uid cu s =
    (Inr (u\<lparr>u_status := Some (\<not> truthy (u_status u))\<rparr>),
     s\<lparr>users := pre @ u\<lparr>u_status := Some (\<not> truthy (u_status u))\<rparr> # post\<rparr>)"
proof -
  have f: "filter (toggle_match uid cu) (users s) = [u]"
    using assms by (simp add: filter_split_single)
  have up: "update_first (toggle_match uid cu)
      (\<lambda>r. r\<lparr>u_status := Some (\<not> truthy (u_status r))\<rparr>) (users s)
      = pre @ u\<lparr>u_status := Some (\<not> truthy (u_status u))\<rparr> # post"
    using assms by (simp add: update_first_split)
  show ?thesis
    unfolding toggle_user_status_def by (simp add: f up)
qed

lemma toggle_Inr_single:
  assumes "toggle_user_status uid cu s = (Inr r, s')"
  shows "\<exists>u. filter (toggle_match uid cu) (users s) = [u]"
proof (cases "filter (toggle_match uid cu) (users s)")
  case Nil
  with assms show ?thesis by (simp add: toggle_user_status_def)
next
  case (Cons u us)
  show ?thesis
  proof (cases us)
    case Nil
    with Cons show ?thesis by simp
  next
    case (Cons v vs)
    with \<open>filter (toggle_match uid cu) (users s) = u # us\<close> assms show ?thesis
      by (simp add: toggle_user_status_def)
  qed
qed

lemma toggle_other_hospital:
  assumes "\<forall>u\<in>set (users s). u_id u = uid \<longrightarrow> u_hospital_id u \<noteq> u_hospital_id cu"
  shows "toggle_user_status uid cu s = (Inl UserNotFound, s)"
proof -
  from assms have "\<forall>u\<in>set (users s). \<not> toggle_match uid cu u"
    by (simp add: toggle_match_def)
  then have "filter (toggle_match uid cu) (users s) = []"
    by (simp add: filter_empty_conv)
  then show ?thesis by (simp add: toggle_user_status_def)
qed

lemma list_users_scoped:
  "\<forall>u\<in>set (list_users cu s). u \<in> set (users s) \<and> u_hospital_id u = u_hospital_id cu"
  by (simp add: list_users_def)

lemma create_user_Inr:
  assumes "create_user d cp cu s = (Inr r, s', cs)"
  shows "\<exists>pw hp. uc_password cp = Some pw \<and> pwd_hash d pw = Some hp \<and>
     r = new_user d cp hp cu s \<and> s' = s\<lparr>users := users s @ [r]\<rparr> \<and> cs = [HashCall pw] \<and>
     user_storable r"
  using assms unfolding create_user_def Let_def
  by (auto split: if_splits option.splits)

lemma new_user_hospital: "u_hospital_id (new_user d cp hp cu s) = u_hospital_id cu"
  by (simp add: new_user_def)

lemma create_user_scoped:
  assumes "create_user d cp cu s = (Inr r, s', cs)"
  shows "u_hospital_id r = u_hospital_id cu \<and> users s' = users s @ [r]"
proof -
  from create_user_Inr [OF assms] obtain pw hp where
    "uc_password cp = Some pw" and
    r: "r = new_user d cp hp cu s" and s': "s' = s\<lparr>users := users s @ [r]\<rparr>"
    by blast
  from r have "u_hospital_id r = u_hospital_id cu" by (simp only: new_user_hospital)
  moreover have "users s' = users s @ [r]" by (subst s') simp
  ultimately show ?thesis by (rule conjI)
qed

lemma login_guard:
  assumes "lr_password p = None \<or> (\<exists>pw. lr_password p = Some pw \<and> 72 < length (encode_utf8 pw))"
  shows "login d ip p s = (Inl InvalidCredentials, s, [])"
  using assms unfolding login_def Let_def by (auto split: option.splits)

lemma login_inactive:
  assumes "find_hospital d (strip (lr_hospital_id p)) s = Returned (Some h)"
    "h_is_active h = Some False"
  shows "login d ip p s = (Inl InvalidCredentials, s, [])"
  using assms unfolding login_def Let_def by (simp split: option.splits)

lemma login_reached:
  assumes "lr_password p = Some pw" "length (encode_utf8 pw) \<le> 72"
    "find_hospital d (strip (lr_hospital_id p)) s = Returned (Some h)"
    "h_is_active h \<noteq> Some False"
  shows "login d ip p s =
    (case find_user d (lower (strip (lr_username p))) h s of
       Raises \<Rightarrow> (Inl Unhandled, s, [])
     | Returned None \<Rightarrow>
         audit_failed_login (lower (strip (lr_username p))) (strip (lr_hospital_id p)) ip s []
     | Returned (Some u) \<Rightarrow>
         if u_status u = Some False
         then audit_failed_login (lower (strip (lr_username p))) (strip (lr_hospital_id p)) ip s []
         else
           (case pwd_verify d pw (u_password_hash u) of
              None \<Rightarrow> (Inl Unhandled, s, [VerifyCall pw (u_password_hash u)])
            | Some False \<Rightarrow>
                audit_failed_login (lower (strip (lr_username p))) (strip (lr_hospital_id p)) ip s
                  [VerifyCall pw (u_password_hash u)]
            | Some True \<Rightarrow>
                login_succeeded d (lower (strip (lr_username p))) (strip (lr_hospital_id p)) ip
                  h u s [VerifyCall pw (u_password_hash u)]))"
  using assms unfolding login_def Let_def by simp

lemma login_user_failure:
  assumes "lr_password p = Some pw" "length (encode_utf8 pw) \<le> 72"
    "find_hospital d (strip (lr_hospital_id p)) s = Returned (Some h)"
    "h_is_active h \<noteq> Some False"
    "find_user d (lower (strip (lr_username p))) h s = Returned None \<or>
     (\<exists>u. find_user d (lower (strip (lr_username p))) h s = Returned (Some u) \<and>
          (u_status u = Some False \<or> pwd_verify d pw (u_password_hash u) = Some False))"
  shows "\<exists>cs. login d ip p s =
    (Inl InvalidCredentials,
     s\<lparr>audit_logs := audit_logs s @
        [login_failed_entry (lower (strip (lr_username p))) (strip (lr_hospital_id p)) ip]\<rparr>, cs)"
  using assms(5) unfolding login_reached [OF assms(1-4)] audit_failed_login_def
  by auto

lemma login_success:
  assumes "lr_password p = Some pw" "length (encode_utf8 pw) \<le> 72"
    "find_hospital d (strip (lr_hospital_id p)) s = Returned (Some h)"
    "h_is_active h \<noteq> Some False"
    "find_user d (lower (strip (lr_username p))) h s = Returned (Some u)"
    "u_status u \<noteq> Some False" "pwd_verify d pw (u_password_hash u) = Some True"
  shows "login d ip p s =
    login_succeeded d (lower (strip (lr_username p))) (strip (lr_hospital_id p)) ip h u s
      [VerifyCall pw (u_password_hash u)]"
  using assms(5-7) unfolding login_reached [OF assms(1-4)] by simp

lemma register_hospital_Inr:
  assumes "register_hospital d env p s = (Inr m, s', cs)"
  shows "\<exists>pw hp. hc_register_secret p = register_secret d \<and> hc_admin_password p = Some pw \<and>
     length (encode_utf8 pw) \<le> 72 \<and>
     find_hospital d (strip (hc_hospital_id p)) s = Returned None \<and>
     pwd_hash d pw = Some hp \<and>
     user_storable (new_admin d p hp (new_hospital d p s) s) \<and>
     s' = s\<lparr>hospitals := hospitals s @ [new_hospital d p s],
            users := users s @ [new_admin d p hp (new_hospital d p s) s]\<rparr>"
  using assms unfolding register_hospital_def Let_def
  by (auto split: if_splits option.splits query.splits)

lemma register_hospital_store:
  assumes "register_hospital d env p s = (r, s', cs)"
  shows "s' = s \<or>
    (\<exists>hp. s' = s\<lparr>hospitals := hospitals s @ [new_hospital d p s],
                 users := users s @ [new_admin d p hp (new_hospital d p s) s]\<rparr>)"
  using assms unfolding register_hospital_def Let_def
  by (auto split: if_splits option.splits query.splits)

lemma find_hospital_Some:
  assumes "find_hospital d k s = Returned (Some h)"
  shows "pg_text (lower k) \<and> h \<in> set (hospitals s) \<and> sql_lower d (h_hospital_id h) = lower k"
proof -
  from assms have pg: "pg_text (lower k)"
    unfolding find_hospital_def by (simp split: if_splits)
  with assms have "find (\<lambda>h. sql_lower d (h_hospital_id h) = lower k) (hospitals s) = Some h"
    unfolding find_hospital_def by simp
  then have "h \<in> set (hospitals s) \<and> sql_lower d (h_hospital_id h) = lower k"
    by (auto simp: find_Some_iff in_set_conv_nth)
  with pg show ?thesis by simp
qed

lemma find_hospital_mem:
  assumes "h \<in> set (hospitals s)" "sql_lower d (h_hospital_id h) = lower k"
  shows "find_hospital d k s = Raises \<or> (\<exists>h'. find_hospital d k s = Returned (Some h'))"
proof (cases "pg_text (lower k)")
  case False
  then show ?thesis by (simp add: find_hospital_def)
next
  case True
  from assms have "find (\<lambda>h. sql_lower d (h_hospital_id h) = lower k) (hospitals s) \<noteq> None"
    by (auto simp: find_None_iff)
  then obtain h' where
    "find (\<lambda>h. sql_lower d (h_hospital_id h) = lower k) (hospitals s) = Some h'"
    by auto
  with True have "find_hospital d k s = Returned (Some h')"
    by (simp add: find_hospital_def)
  then show ?thesis by blast
qed

lemma find_hospital_mem_text:
  assumes "h \<in> set (hospitals s)" "sql_lower d (h_hospital_id h) = lower k" "pg_text (lower k)"
  shows "\<exists>h'. find_hospital d k s = Returned (Some h')"
  using find_hospital_mem [OF assms(1,2)] assms(3)
  by (auto simp: find_hospital_def)

lemma register_hospital_raises:
  assumes "find_hospital d (strip (hc_hospital_id p)) s = Raises"
  shows "\<exists>e. register_hospital d env p s = (Inl e, s, [])"
  using assms unfolding register_hospital_def Let_def
  by (auto split: option.splits)

lemma register_hospital_found:
  assumes "find_hospital d (strip (hc_hospital_id p)) s = Returned (Some h)"
  shows "\<exists>e. register_hospital d env p s = (Inl e, s, [])"
  using assms unfolding register_hospital_def Let_def
  by (auto split: option.splits)

lemma register_hospital_existing:
  assumes "h \<in> set (hospitals s)"
    "sql_lower d (h_hospital_id h) = lower (strip (hc_hospital_id p))"
  shows "\<exists>e. register_hospital d env p s = (Inl e, s, [])"
  using find_hospital_mem [OF assms]
proof
  assume "find_hospital d (strip (hc_hospital_id p)) s = Raises"
  then show ?thesis by (rule register_hospital_raises)
next
  assume "\<exists>h'. find_hospital d (strip (hc_hospital_id p)) s = Returned (Some h')"
  then obtain h' where "find_hospital d (strip (hc_hospital_id p)) s = Returned (Some h')" ..
  then show ?thesis by (rule register_hospital_found)
qed

lemma register_hospital_conflict:
  assumes "find_hospital d (strip (hc_hospital_id p)) s = Returned (Some h)"
    "hc_register_secret p = register_secret d"
    "hc_admin_password p = Some pw" "length (encode_utf8 pw) \<le> 72"
  shows "register_hospital d env p s = (Inl HospitalIdExists, s, [])"
  using assms unfolding register_hospital_def Let_def
  by simp

lemma new_hospital_id: "h_hospital_id (new_hospital d p s) = strip (hc_hospital_id p)"
  by (simp add: new_hospital_def)

lemma register_hospital_then_found:
  assumes "register_hospital d env p s = (Inr m, t, cs)"
    "sql_lower d (strip (hc_hospital_id p)) = lower k" "pg_text (lower k)"
  shows "\<exists>h'. find_hospital d k t = Returned (Some h')"
proof -
  from register_hospital_Inr [OF assms(1)] obtain hp where
    t: "t = s\<lparr>hospitals := hospitals s @ [new_hospital d p s],
            users := users s @ [new_admin d p hp (new_hospital d p s) s]\<rparr>"
    by blast
  have "new_hospital d p s \<in> set (hospitals t)" by (simp add: t)
  moreover have "sql_lower d (h_hospital_id (new_hospital d p s)) = lower k"
    by (simp add: new_hospital_id assms(2))
  ultimately show ?thesis using assms(3) by (rule find_hospital_mem_text)
qed

lemma register_all_conflicts:
  assumes "\<forall>a\<in>set attempts.
      (\<exists>h. find_hospital d (strip (hc_hospital_id (snd a))) s = Returned (Some h)) \<and>
      hc_register_secret (snd a) = register_secret d \<and>
      (\<exists>pw. hc_admin_password (snd a) = Some pw \<and> length (encode_utf8 pw) \<le> 72)"
  shows "register_all d attempts s = (replicate (length attempts) (Inl HospitalIdExists), s)"
  using assms
proof (induction attempts)
  case Nil
  show ?case by simp
next
  case (Cons a rest)
  obtain env p where a: "a = (env, p)" by (cases a)
  from Cons.prems a obtain h pw where
    "find_hospital d (strip (hc_hospital_id p)) s = Returned (Some h)"
    "hc_register_secret p = register_secret d"
    "hc_admin_password p = Some pw" "length (encode_utf8 pw) \<le> 72"
    by auto
  then have one: "register_hospital d env p s = (Inl HospitalIdExists, s, [])"
    by (rule register_hospital_conflict)
  from Cons.prems have "\<forall>a\<in>set rest.
      (\<exists>h. find_hospital d (strip (hc_hospital_id (snd a))) s = Returned (Some h)) \<and>
      hc_register_secret (snd a) = register_secret d \<and>
      (\<exists>pw. hc_admin_password (snd a) = Some pw \<and> length (encode_utf8 pw) \<le> 72)"
    by simp
  then have "register_all d rest s = (replicate (length rest) (Inl HospitalIdExists), s)"
    by (rule Cons.IH)
  with one show ?case by (simp add: a)
qed

lemma register_hospital_atomic:
  assumes "register_hospital d env p s = (r, s', cs)"
  shows "s' = s \<or>
    (\<exists>h a. hospitals s' = hospitals s @ [h] \<and> users s' = users s @ [a] \<and>
       u_hospital_id a = h_id h \<and> audit_logs s' = audit_logs s)"
proof -
  from register_hospital_store [OF assms] show ?thesis
  proof
    assume "s' = s"
    then show ?thesis ..
  next
    assume "\<exists>hp. s' = s\<lparr>hospitals := hospitals s @ [new_hospital d p s],
                 users := users s @ [new_admin d p hp (new_hospital d p s) s]\<rparr>"
    then obtain hp where s': "s' = s\<lparr>hospitals := hospitals s @ [new_hospital d p s],
                 users := users s @ [new_admin d p hp (new_hospital d p s) s]\<rparr>" ..
    have "hospitals s' = hospitals s @ [new_hospital d p s] \<and>
       users s' = users s @ [new_admin d p hp (new_hospital d p s) s] \<and>
       u_hospital_id (new_admin d p hp (new_hospital d p s) s) = h_id (new_hospital d p s) \<and>
       audit_logs s' = audit_logs s"
      by (simp add: s' new_admin_def)
    then have "\<exists>h a. hospitals s' = hospitals s @ [h] \<and> users s' = users s @ [a] \<and>
       u_hospital_id a = h_id h \<and> audit_logs s' = audit_logs s"
      by (intro exI)
    then show ?thesis ..
  qed
qed

lemma register_hospital_rollback:
  assumes "flush_outcome env \<noteq> Returns \<or> commit_outcome env \<noteq> Returns"
  shows "snd (register_hospital d env p s) = (s, [])
       \<or> (\<exists>pw. snd (register_hospital d env p s) = (s, [HashCall pw]))"
  using assms unfolding register_hospital_def Let_def
  by (auto split: option.splits query.splits)

lemma register_hospital_raised:
  assumes "hc_register_secret p = register_secret d" "hc_admin_password p = Some pw"
    "length (encode_utf8 pw) \<le> 72"
    "find_hospital d (strip (hc_hospital_id p)) s = Returned None"
    "pwd_hash d pw = Some hp"
    "hospital_storable (new_hospital d p s)"
    "user_storable (new_admin d p hp (new_hospital d p s) s)"
  shows "(flush_outcome env = RaisesIntegrityError \<longrightarrow>
            register_hospital d env p s = (Inl RecordExists, s, [HashCall pw])) \<and>
         (flush_outcome env = RaisesOther \<longrightarrow>
            register_hospital d env p s = (Inl UnexpectedServerError, s, [HashCall pw])) \<and>
         (flush_outcome env = Returns \<and> commit_outcome env = RaisesIntegrityError \<longrightarrow>
            register_hospital d env p s = (Inl RecordExists, s, [HashCall pw])) \<and>
         (flush_outcome env = Returns \<and> commit_outcome env = RaisesOther \<longrightarrow>
            register_hospital d env p s = (Inl UnexpectedServerError, s, [HashCall pw]))"
  using assms unfolding register_hospital_def Let_def
  by simp

lemma new_rows_email:
  "h_email (new_hospital d p s) = lower (strip (hc_email p)) \<and>
   u_email (new_admin d p hp (new_hospital d p s) s) = Some (lower (strip (hc_email p))) \<and>
   u_hospital_id (new_admin d p hp (new_hospital d p s) s) = h_id (new_hospital d p s) \<and>
   u_role (new_admin d p hp (new_hospital d p s) s) = ''admin''"
  by (simp add: new_hospital_def new_admin_def)

lemma find_hospital_after_register:
  assumes none: "find_hospital d (strip (hc_hospital_id rp)) s = Returned None"
    and agree: "sql_lower d (strip (hc_hospital_id rp)) = lower (strip (hc_hospital_id rp))"
    and k: "lower k = lower (strip (hc_hospital_id rp))"
    and hs: "hospitals t = hospitals s @ [new_hospital d rp s]"
  shows "find_hospital d k t = Returned (Some (new_hospital d rp s))"
proof -
  from none have pg: "pg_text (lower k)"
    unfolding find_hospital_def k by (simp split: if_splits)
  with none have "find (\<lambda>h. sql_lower d (h_hospital_id h) = lower k) (hospitals s) = None"
    unfolding find_hospital_def k by simp
  then have "find (\<lambda>h. sql_lower d (h_hospital_id h) = lower k)
        (hospitals s @ [new_hospital d rp s])
      = find (\<lambda>h. sql_lower d (h_hospital_id h) = lower k) [new_hospital d rp s]"
    by (rule find_append_None)
  also have "\<dots> = Some (new_hospital d rp s)"
    by (simp add: new_hospital_def k agree)
  finally show ?thesis unfolding find_hospital_def hs using pg by simp
qed

lemma new_hospital_fresh:
  assumes "\<forall>u\<in>set (users s). u_hospital_id u \<in> h_id ` set (hospitals s)"
  shows "\<forall>u\<in>set (users s). u_hospital_id u \<noteq> h_id (new_hospital d rp s)"
proof
  fix u assume "u \<in> set (users s)"
  with assms have "u_hospital_id u \<in> set (map h_id (hospitals s))" by simp
  moreover have "h_id (new_hospital d rp s) \<notin> set (map h_id (hospitals s))"
    unfolding new_hospital_def by (simp add: next_id_fresh del: set_map)
  ultimately show "u_hospital_id u \<noteq> h_id (new_hospital d rp s)" by metis
qed

lemma find_admin_after_register:
  assumes fk: "\<forall>u\<in>set (users s). u_hospital_id u \<in> h_id ` set (hospitals s)"
    and n: "n = lower (strip (hc_admin_username rp))"
    and agree: "sql_lower d (lower (strip (hc_admin_username rp))) =
      lower (strip (hc_admin_username rp))"
    and st: "user_storable (new_admin d rp hp (new_hospital d rp s) s)"
    and us: "users t = users s @ [new_admin d rp hp (new_hospital d rp s) s]"
  shows "find_user d n (new_hospital d rp s) t
    = Returned (Some (new_admin d rp hp (new_hospital d rp s) s))"
proof -
  from st have pg: "pg_text n"
    by (simp add: user_storable_def new_admin_def n)
  have "\<forall>u\<in>set (users s). \<not> login_user_match d n (new_hospital d rp s) u"
    using new_hospital_fresh [OF fk, of d rp] by (simp add: login_user_match_def)
  then have "find (login_user_match d n (new_hospital d rp s)) (users s) = None"
    by (simp add: find_None_iff)
  then have "find (login_user_match d n (new_hospital d rp s))
      (users s @ [new_admin d rp hp (new_hospital d rp s) s])
    = find (login_user_match d n (new_hospital d rp s))
        [new_admin d rp hp (new_hospital d rp s) s]"
    by (rule find_append_None)
  also have "\<dots> = Some (new_admin d rp hp (new_hospital d rp s) s)"
    by (simp add: login_user_match_def new_admin_def n agree)
  finally show ?thesis unfolding find_user_def us using pg by simp
qed

section \<open>Password length guard\<close>

text \<open>
  C4. A password whose UTF-8 encoding is longer than 72 bytes is rejected before
  \<open>pwd_ctx\<close> is called: \<open>login\<close> raises the generic 401 and \<open>create_user\<close> raises a
  400, the datastore is left as it was, and the list of calls to the hasher is empty.
\<close>

theorem long_password_rejected_before_hashing:
  assumes "72 < length (encode_utf8 pw)"
  shows "(lr_password lp = Some pw \<longrightarrow>
            login d client_host lp s = (Inl InvalidCredentials, s, [])) \<and>
         (uc_password cp = Some pw \<longrightarrow>
            (\<exists>e. create_user d cp current_user s = (Inl e, s, []) \<and> status_code e = 400))"
  using assms by (simp add: login_def create_user_def Let_def)

theorem long_password_rejected_before_hashing_witness:
  "72 < length (encode_utf8 long_password) \<and>
   login example_deps ''10.0.0.9''
     \<lparr>lr_hospital_id = ''h1'', lr_username = ''admin'', lr_password = Some long_password\<rparr> db_h1
     = (Inl InvalidCredentials, db_h1, []) \<and>
   (\<exists>e. create_user example_deps
      \<lparr>uc_username = ''smith'', uc_email = None, uc_password = Some long_password,
        uc_role = ''doctor'', uc_full_name = None\<rparr> admin_h1 db_h1 = (Inl e, db_h1, [])
      \<and> status_code e = 400)"
proof -
  have long: "72 < length (encode_utf8 long_password)"
    by code_simp
  show ?thesis
    using long
      long_password_rejected_before_hashing [OF long,
        where lp = "\<lparr>lr_hospital_id = ''h1'', lr_username = ''admin'',
                      lr_password = Some long_password\<rparr>"
          and cp = "\<lparr>uc_username = ''smith'', uc_email = None,
                      uc_password = Some long_password, uc_role = ''doctor'',
                      uc_full_name = None\<rparr>"
          and d = example_deps and client_host = "''10.0.0.9''" and s = db_h1
          and current_user = admin_h1]
    by simp
qed

section \<open>User administration\<close>

text \<open>
  C2. The user administration is scoped to the hospital of the acting admin:
  \<open>list_users\<close> returns rows of the datastore whose \<open>hospital_id\<close> is the caller's; a
  user that \<open>create_user\<close> creates carries the caller's \<open>hospital_id\<close>, whatever the
  payload (which has no field for it); and \<open>toggle_user_status\<close> on an id that no user
  of the caller's hospital bears answers 404 and leaves the datastore as it was.
\<close>

theorem user_administration_scoped:
  "(\<forall>u\<in>set (list_users cu s). u \<in> set (users s) \<and> u_hospital_id u = u_hospital_id cu) \<and>
   (create_user d cp cu s = (Inr r, s', cs) \<longrightarrow>
      u_hospital_id r = u_hospital_id cu \<and> users s' = users s @ [r]) \<and>
   ((\<forall>u\<in>set (users s). u_id u = uid \<longrightarrow> u_hospital_id u \<noteq> u_hospital_id cu) \<longrightarrow>
      toggle_user_status uid cu s = (Inl UserNotFound, s))"
proof (intro conjI impI)
  show "\<forall>u\<in>set (list_users cu s). u \<in> set (users s) \<and> u_hospital_id u = u_hospital_id cu"
    by (rule list_users_scoped)
next
  assume c: "create_user d cp cu s = (Inr r, s', cs)"
  from create_user_scoped [OF c] show "u_hospital_id r = u_hospital_id cu" ..
  from create_user_scoped [OF c] show "users s' = users s @ [r]" ..
next
  assume "\<forall>u\<in>set (users s). u_id u = uid \<longrightarrow> u_hospital_id u \<noteq> u_hospital_id cu"
  then show "toggle_user_status uid cu s = (Inl UserNotFound, s)"
    by (rule toggle_other_hospital)
qed

theorem user_administration_scoped_witness:
  "list_users admin_h1 db_three = [admin_h1] \<and>
   create_user example_deps create_smith admin_h1 db_three =
     (Inr smith, db_three\<lparr>users := users db_three @ [smith]\<rparr>, [HashCall ''pw5'']) \<and>
   u_hospital_id smith = u_hospital_id admin_h1 \<and>
   nurse_h2 \<in> set (users db_three) \<and> u_id nurse_h2 = 3 \<and>
   u_hospital_id nurse_h2 \<noteq> u_hospital_id admin_h1 \<and>
   toggle_user_status 3 admin_h1 db_three = (Inl UserNotFound, db_three)"
proof -
  note t = user_administration_scoped [where cu = admin_h1 and s = db_three
      and d = example_deps and cp = create_smith and r = smith
      and s' = "db_three\<lparr>users := users db_three @ [smith]\<rparr>" and cs = "[HashCall ''pw5'']"
      and uid = 3]
  have l: "list_users admin_h1 db_three = [admin_h1]"
    by code_simp
  have c: "create_user example_deps create_smith admin_h1 db_three =
     (Inr smith, db_three\<lparr>users := users db_three @ [smith]\<rparr>, [HashCall ''pw5''])"
    by code_simp
  have h: "\<forall>u\<in>set (users db_three). u_id u = 3 \<longrightarrow> u_hospital_id u \<noteq> u_hospital_id admin_h1"
    by code_simp
  have n: "nurse_h2 \<in> set (users db_three) \<and> u_id nurse_h2 = 3 \<and>
      u_hospital_id nurse_h2 \<noteq> u_hospital_id admin_h1"
    by code_simp
  from t c have c': "u_hospital_id smith = u_hospital_id admin_h1"
    by (elim conjE) simp
  from t h have t': "toggle_user_status 3 admin_h1 db_three = (Inl UserNotFound, db_three)"
    by (elim conjE) simp
  from l c c' n t' show ?thesis by (intro conjI) (elim conjE, assumption)+
qed


text \<open>
  C10. A successful \<open>toggle_user_status\<close> changes the status column of the row it
  targets and nothing else: the hospitals and the audit log are as before, the users
  table differs in one row only, the one with the id asked for in the caller's hospital,
  and of that row every column but the status is unchanged.
\<close>

theorem toggle_changes_only_status:
  assumes "toggle_user_status uid cu s = (Inr r, s')"
  shows "hospitals s' = hospitals s \<and> audit_logs s' = audit_logs s \<and>
    (\<exists>pre u post. users s = pre @ u # post \<and> users s' = pre @ r # post \<and>
       u_id u = uid \<and> u_hospital_id u = u_hospital_id cu \<and>
       u_id r = u_id u \<and> u_hospital_id r = u_hospital_id u \<and> u_username r = u_username u \<and>
       u_email r = u_email u \<and> u_password_hash r = u_password_hash u \<and> u_role r = u_role u \<and>
       u_full_name r = u_full_name u \<and> u_last_login r = u_last_login u \<and>
       u_status r = Some (\<not> truthy (u_status u)))"
proof -
  from toggle_Inr_single [OF assms] obtain u
    where one: "filter (toggle_match uid cu) (users s) = [u]" ..
  from filter_single_split [OF one] obtain pre post where sp: "users s = pre @ u # post"
      "\<forall>x\<in>set pre. \<not> toggle_match uid cu x" "\<forall>x\<in>set post. \<not> toggle_match uid cu x"
      "toggle_match uid cu u"
    by blast
  define u' where "u' = u\<lparr>u_status := Some (\<not> truthy (u_status u))\<rparr>"
  have tog: "toggle_user_status uid cu s = (Inr u', s\<lparr>users := pre @ u' # post\<rparr>)"
    unfolding u'_def by (rule toggle_single [OF sp])
  have eq: "(Inr r :: error + user, s') = (Inr u', s\<lparr>users := pre @ u' # post\<rparr>)"
    by (rule trans [OF assms [symmetric] tog])
  from eq have ru: "r = u'" by simp
  from eq have s': "s' = s\<lparr>users := pre @ r # post\<rparr>" by (simp add: ru)
  have r: "r = u\<lparr>u_status := Some (\<not> truthy (u_status u))\<rparr>"
    by (simp add: ru u'_def)
  have m: "u_id u = uid \<and> u_hospital_id u = u_hospital_id cu"
    using sp(4) by (simp add: toggle_match_def)
  have f: "u_id r = u_id u \<and> u_hospital_id r = u_hospital_id u \<and> u_username r = u_username u \<and>
       u_email r = u_email u \<and> u_password_hash r = u_password_hash u \<and> u_role r = u_role u \<and>
       u_full_name r = u_full_name u \<and> u_last_login r = u_last_login u \<and>
       u_status r = Some (\<not> truthy (u_status u))"
    by (simp add: r)
  have us: "users s' = pre @ r # post" by (simp add: s')
  have "users s = pre @ u # post \<and> users s' = pre @ r # post \<and>
       u_id u = uid \<and> u_hospital_id u = u_hospital_id cu \<and>
       u_id r = u_id u \<and> u_hospital_id r = u_hospital_id u \<and> u_username r = u_username u \<and>
       u_email r = u_email u \<and> u_password_hash r = u_password_hash u \<and> u_role r = u_role u \<and>
       u_full_name r = u_full_name u \<and> u_last_login r = u_last_login u \<and>
       u_status r = Some (\<not> truthy (u_status u))"
    using sp(1) us m f by (intro conjI) (elim conjE, assumption)+
  then have ex: "\<exists>pre u post. users s = pre @ u # post \<and> users s' = pre @ r # post \<and>
       u_id u = uid \<and> u_hospital_id u = u_hospital_id cu \<and>
       u_id r = u_id u \<and> u_hospital_id r = u_hospital_id u \<and> u_username r = u_username u \<and>
       u_email r = u_email u \<and> u_password_hash r = u_password_hash u \<and> u_role r = u_role u \<and>
       u_full_name r = u_full_name u \<and> u_last_login r = u_last_login u \<and>
       u_status r = Some (\<not> truthy (u_status u))"
    by (intro exI)
  have h: "hospitals s' = hospitals s" by (simp add: s')
  have a: "audit_logs s' = audit_logs s" by (simp add: s')
  from h a ex show ?thesis by (intro conjI)
qed


theorem toggle_changes_only_status_witness:
  "toggle_user_status 3 admin_h2 db_three =
     (Inr (nurse_h2\<lparr>u_status := Some True\<rparr>),
      db_three\<lparr>users := [admin_h1, admin_h2, nurse_h2\<lparr>u_status := Some True\<rparr>, admin_h3]\<rparr>) \<and>
   hospitals (db_three\<lparr>users := [admin_h1, admin_h2, nurse_h2\<lparr>u_status := Some True\<rparr>, admin_h3]\<rparr>)
     = hospitals db_three \<and>
   audit_logs (db_three\<lparr>users := [admin_h1, admin_h2, nurse_h2\<lparr>u_status := Some True\<rparr>, admin_h3]\<rparr>)
     = audit_logs db_three"
proof -
  have t: "toggle_user_status 3 admin_h2 db_three =
     (Inr (nurse_h2\<lparr>u_status := Some True\<rparr>),
      db_three\<lparr>users := [admin_h1, admin_h2, nurse_h2\<lparr>u_status := Some True\<rparr>, admin_h3]\<rparr>)"
    by code_simp
  from toggle_changes_only_status [OF t] t show ?thesis
    by (intro conjI) (elim conjE, assumption)+
qed


text \<open>
  Two calls of \<open>toggle_user_status\<close> in succession, for the user with the given id in
  the caller's hospital, both succeed, and the status is then the truth value that the
  original status had: a status that was true or false is restored, and with it the whole
  datastore.
\<close>

lemma toggle_twice_restores_set_status:
  assumes "filter (toggle_match uid cu) (users s) = [u]"
  shows "\<exists>r1 s1 r2 s2.
     toggle_user_status uid cu s = (Inr r1, s1) \<and>
     toggle_user_status uid cu s1 = (Inr r2, s2) \<and>
     u_status r1 = Some (\<not> truthy (u_status u)) \<and>
     u_status r2 = Some (truthy (u_status u)) \<and>
     (u_status u \<noteq> None \<longrightarrow> r2 = u \<and> s2 = s)"
proof -
  from filter_single_split [OF assms] obtain pre post where sp: "users s = pre @ u # post"
      "\<forall>x\<in>set pre. \<not> toggle_match uid cu x" "\<forall>x\<in>set post. \<not> toggle_match uid cu x"
      "toggle_match uid cu u"
    by blast
  define r1 where "r1 = u\<lparr>u_status := Some (\<not> truthy (u_status u))\<rparr>"
  define s1 where "s1 = s\<lparr>users := pre @ r1 # post\<rparr>"
  define r2 where "r2 = r1\<lparr>u_status := Some (\<not> truthy (u_status r1))\<rparr>"
  define s2 where "s2 = s1\<lparr>users := pre @ r2 # post\<rparr>"
  have t1: "toggle_user_status uid cu s = (Inr r1, s1)"
    unfolding r1_def s1_def by (rule toggle_single [OF sp])
  have m1: "toggle_match uid cu r1" using sp(4) by (simp add: r1_def)
  have u1: "users s1 = pre @ r1 # post" by (simp add: s1_def)
  have t2: "toggle_user_status uid cu s1 = (Inr r2, s2)"
    unfolding r2_def s2_def by (rule toggle_single [OF u1 sp(2,3) m1])
  have st1: "u_status r1 = Some (\<not> truthy (u_status u))" by (simp add: r1_def)
  have st2: "u_status r2 = Some (truthy (u_status u))" by (simp add: r2_def r1_def)
  have restore: "u_status u \<noteq> None \<longrightarrow> r2 = u \<and> s2 = s"
  proof
    assume "u_status u \<noteq> None"
    then obtain b where b: "u_status u = Some b" by auto
    have "u\<lparr>u_status := Some b\<rparr> = u" using b by simp
    then have ru: "r2 = u" using b by (simp add: r2_def r1_def)
    have "s2 = s\<lparr>users := pre @ u # post\<rparr>" by (simp add: s2_def s1_def ru)
    also have "\<dots> = s" using sp(1) by simp
    finally show "r2 = u \<and> s2 = s" using ru by simp
  qed
  have "toggle_user_status uid cu s = (Inr r1, s1) \<and>
     toggle_user_status uid cu s1 = (Inr r2, s2) \<and>
     u_status r1 = Some (\<not> truthy (u_status u)) \<and>
     u_status r2 = Some (truthy (u_status u)) \<and>
     (u_status u \<noteq> None \<longrightarrow> r2 = u \<and> s2 = s)"
    using t1 t2 st1 st2 restore by (intro conjI)
  then show ?thesis by (intro exI)
qed

text \<open>
  C8. A user whose status is null: the row that \<open>create_user\<close> stores when the status
  column has no default. Line 52 of \<open>login\<close> takes the null status for active, and the
  user logs in. The admin of the hospital toggles the status twice: it is true after the
  first call, so that the user is still active, and false after the second, not null as
  it was.
\<close>

theorem toggle_twice_null_status:
  "create_user null_default_deps create_smith admin_h1 db_h1 =
     (Inr smith_null, db_smith, [HashCall ''pw5'']) \<and>
   u_status smith_null = None \<and>
   fst (login null_default_deps ''10.0.0.9'' login_smith db_smith) =
     Inr \<lparr>tr_access_token = ''doctor@h1'', tr_role = ''doctor'',
          tr_full_name = Some ''Dr Smith'', tr_hospital_id = ''h1''\<rparr> \<and>
   toggle_user_status 2 admin_h1 db_smith =
     (Inr (smith_null\<lparr>u_status := Some True\<rparr>),
      db_h1\<lparr>users := [admin_h1, smith_null\<lparr>u_status := Some True\<rparr>]\<rparr>) \<and>
   toggle_user_status 2 admin_h1
      (db_h1\<lparr>users := [admin_h1, smith_null\<lparr>u_status := Some True\<rparr>]\<rparr>) =
     (Inr (smith_null\<lparr>u_status := Some False\<rparr>),
      db_h1\<lparr>users := [admin_h1, smith_null\<lparr>u_status := Some False\<rparr>]\<rparr>) \<and>
   u_status (smith_null\<lparr>u_status := Some False\<rparr>) \<noteq> u_status smith_null"
  by code_simp

section \<open>Login\<close>

text \<open>
  C5. When the hospital that the tenant id of a login request selects has its active flag
  set to false, \<open>login\<close> raises the generic 401, whatever the username and the password,
  and reads and writes nothing further. When the flag is null the hospital counts as
  active: with a user of that hospital who is not disabled and a password that verifies,
  the login succeeds.
\<close>

theorem inactive_hospital_blocks_login:
  "(find_hospital d (strip (lr_hospital_id p)) s = Returned (Some h) \<and> h_is_active h = Some False \<longrightarrow>
      login d ip p s = (Inl InvalidCredentials, s, [])) \<and>
   (find_hospital d (strip (lr_hospital_id p)) s = Returned (Some h) \<and> h_is_active h = None \<and>
    lr_password p = Some pw \<and> length (encode_utf8 pw) \<le> 72 \<and>
    find_user d (lower (strip (lr_username p))) h s = Returned (Some u) \<and>
    u_status u \<noteq> Some False \<and> pwd_verify d pw (u_password_hash u) = Some True \<longrightarrow>
      fst (login d ip p s) =
        Inr \<lparr>tr_access_token = create_access_token d (u_id u) (u_role u) (strip (lr_hospital_id p)),
             tr_role = u_role u, tr_full_name = u_full_name u,
             tr_hospital_id = strip (lr_hospital_id p)\<rparr>)"
proof (intro conjI impI)
  assume "find_hospital d (strip (lr_hospital_id p)) s = Returned (Some h) \<and> h_is_active h = Some False"
  then show "login d ip p s = (Inl InvalidCredentials, s, [])"
    by (elim conjE) (rule login_inactive)
next
  assume a: "find_hospital d (strip (lr_hospital_id p)) s = Returned (Some h) \<and> h_is_active h = None \<and>
    lr_password p = Some pw \<and> length (encode_utf8 pw) \<le> 72 \<and>
    find_user d (lower (strip (lr_username p))) h s = Returned (Some u) \<and>
    u_status u \<noteq> Some False \<and> pwd_verify d pw (u_password_hash u) = Some True"
  then have act: "h_is_active h \<noteq> Some False" by simp
  from a have "login d ip p s =
    login_succeeded d (lower (strip (lr_username p))) (strip (lr_hospital_id p)) ip h u s
      [VerifyCall pw (u_password_hash u)]"
    by (intro login_success [OF _ _ _ act]) simp_all
  then show "fst (login d ip p s) =
        Inr \<lparr>tr_access_token = create_access_token d (u_id u) (u_role u) (strip (lr_hospital_id p)),
             tr_role = u_role u, tr_full_name = u_full_name u,
             tr_hospital_id = strip (lr_hospital_id p)\<rparr>"
    by (simp add: login_succeeded_def)
qed

theorem inactive_hospital_blocks_login_witness:
  "find_hospital example_deps (strip (lr_hospital_id login_h2)) db_three = Returned (Some hospital_h2) \<and>
   h_is_active hospital_h2 = Some False \<and>
   find_user example_deps (lower (strip (lr_username login_h2))) hospital_h2 db_three = Returned (Some admin_h2) \<and>
   pwd_verify example_deps ''pw2'' (u_password_hash admin_h2) = Some True \<and>
   login example_deps ''10.0.0.9'' login_h2 db_three = (Inl InvalidCredentials, db_three, []) \<and>
   find_hospital example_deps (strip (lr_hospital_id login_h3)) db_three = Returned (Some hospital_h3) \<and>
   h_is_active hospital_h3 = None \<and>
   fst (login example_deps ''10.0.0.9'' login_h3 db_three) =
     Inr \<lparr>tr_access_token = ''admin@h3'', tr_role = ''admin'',
          tr_full_name = Some ''Administrator'', tr_hospital_id = ''h3''\<rparr>"
proof -
  have h2: "find_hospital example_deps (strip (lr_hospital_id login_h2)) db_three = Returned (Some hospital_h2)"
    by code_simp
  have i2: "h_is_active hospital_h2 = Some False"
    by code_simp
  have u2: "find_user example_deps (lower (strip (lr_username login_h2))) hospital_h2 db_three = Returned (Some admin_h2)"
    by code_simp
  have v2: "pwd_verify example_deps ''pw2'' (u_password_hash admin_h2) = Some True"
    by code_simp
  have h3: "find_hospital example_deps (strip (lr_hospital_id login_h3)) db_three = Returned (Some hospital_h3)"
    by code_simp
  have i3: "h_is_active hospital_h3 = None"
    by code_simp
  have p3: "lr_password login_h3 = Some ''pw4''"
    by code_simp
  have l3: "length (encode_utf8 ''pw4'') \<le> 72"
    by code_simp
  have u3: "find_user example_deps (lower (strip (lr_username login_h3))) hospital_h3 db_three = Returned (Some admin_h3)"
    by code_simp
  have s3: "u_status admin_h3 \<noteq> Some False"
    by code_simp
  have v3: "pwd_verify example_deps ''pw4'' (u_password_hash admin_h3) = Some True"
    by code_simp
  have e3: "\<lparr>tr_access_token =
        create_access_token example_deps (u_id admin_h3) (u_role admin_h3)
          (strip (lr_hospital_id login_h3)),
      tr_role = u_role admin_h3, tr_full_name = u_full_name admin_h3,
      tr_hospital_id = strip (lr_hospital_id login_h3)\<rparr> =
     \<lparr>tr_access_token = ''admin@h3'', tr_role = ''admin'',
          tr_full_name = Some ''Administrator'', tr_hospital_id = ''h3''\<rparr>"
    by code_simp
  have r2: "login example_deps ''10.0.0.9'' login_h2 db_three =
      (Inl InvalidCredentials, db_three, [])"
    by (rule inactive_hospital_blocks_login [where p = login_h2 and s = db_three
        and h = hospital_h2 and d = example_deps and ip = "''10.0.0.9''",
        THEN conjunct1, THEN mp, OF conjI [OF h2 i2]])
  have c3: "find_hospital example_deps (strip (lr_hospital_id login_h3)) db_three = Returned (Some hospital_h3) \<and>
    h_is_active hospital_h3 = None \<and>
    lr_password login_h3 = Some ''pw4'' \<and> length (encode_utf8 ''pw4'') \<le> 72 \<and>
    find_user example_deps (lower (strip (lr_username login_h3))) hospital_h3 db_three = Returned (Some admin_h3) \<and>
    u_status admin_h3 \<noteq> Some False \<and>
    pwd_verify example_deps ''pw4'' (u_password_hash admin_h3) = Some True"
    using h3 i3 p3 l3 u3 s3 v3 by (intro conjI)
  have r3: "fst (login example_deps ''10.0.0.9'' login_h3 db_three) =
     Inr \<lparr>tr_access_token = ''admin@h3'', tr_role = ''admin'',
          tr_full_name = Some ''Administrator'', tr_hospital_id = ''h3''\<rparr>"
    unfolding e3 [symmetric]
    by (rule inactive_hospital_blocks_login [where p = login_h3 and s = db_three
        and h = hospital_h3 and d = example_deps and ip = "''10.0.0.9''"
        and pw = "''pw4''" and u = admin_h3, THEN conjunct2, THEN mp, OF c3])
  from h2 i2 u2 v2 r2 h3 i3 r3 show ?thesis by (intro conjI)
qed


text \<open>
  C1. The audit rows of \<open>login\<close>. A request that the password guard rejects (the
  password is not a string, or longer than 72 bytes) gets the 401 and no row is written.
  A request that passes the guard, finds a hospital that is not deactivated and whose
  user query returns writes exactly one row, provided that the verify call, if made,
  returns: when the user is absent or disabled, or the password does not verify,
  a \<open>LOGIN_FAILED\<close> row with the normalized username, the tenant id and the client
  address is in the datastore that the 401 leaves behind; when the password verifies, a
  \<open>LOGIN_SUCCESS\<close> row with the user's id and the client address is.
\<close>

theorem login_audit_row:
  "((lr_password p = None \<or> (\<exists>pw. lr_password p = Some pw \<and> 72 < length (encode_utf8 pw))) \<longrightarrow>
      login d ip p s = (Inl InvalidCredentials, s, [])) \<and>
   (lr_password p = Some pw \<and> length (encode_utf8 pw) \<le> 72 \<and>
    find_hospital d (strip (lr_hospital_id p)) s = Returned (Some h) \<and> h_is_active h \<noteq> Some False \<and>
    (find_user d (lower (strip (lr_username p))) h s = Returned None \<or>
     (\<exists>u. find_user d (lower (strip (lr_username p))) h s = Returned (Some u) \<and>
          (u_status u = Some False \<or> pwd_verify d pw (u_password_hash u) = Some False))) \<longrightarrow>
      (\<exists>cs. login d ip p s =
         (Inl InvalidCredentials,
          s\<lparr>audit_logs := audit_logs s @
             [\<lparr>a_user_id = None, a_action = ''LOGIN_FAILED'',
               a_details = Some [(''username'', lower (strip (lr_username p))),
                                 (''hospital_id'', strip (lr_hospital_id p))],
               a_ip_address = ip\<rparr>]\<rparr>,
          cs))) \<and>
   (lr_password p = Some pw \<and> length (encode_utf8 pw) \<le> 72 \<and>
    find_hospital d (strip (lr_hospital_id p)) s = Returned (Some h) \<and> h_is_active h \<noteq> Some False \<and>
    find_user d (lower (strip (lr_username p))) h s = Returned (Some u) \<and>
    u_status u \<noteq> Some False \<and> pwd_verify d pw (u_password_hash u) = Some True \<longrightarrow>
      (\<exists>tok s'. login d ip p s = (Inr tok, s', [VerifyCall pw (u_password_hash u)]) \<and>
         hospitals s' = hospitals s \<and>
         audit_logs s' = audit_logs s @
           [\<lparr>a_user_id = Some (u_id u), a_action = ''LOGIN_SUCCESS'', a_details = None,
             a_ip_address = ip\<rparr>]))"
proof (intro conjI impI)
  assume "lr_password p = None \<or> (\<exists>pw. lr_password p = Some pw \<and> 72 < length (encode_utf8 pw))"
  then show "login d ip p s = (Inl InvalidCredentials, s, [])"
    by (rule login_guard)
next
  assume a: "lr_password p = Some pw \<and> length (encode_utf8 pw) \<le> 72 \<and>
    find_hospital d (strip (lr_hospital_id p)) s = Returned (Some h) \<and> h_is_active h \<noteq> Some False \<and>
    (find_user d (lower (strip (lr_username p))) h s = Returned None \<or>
     (\<exists>u. find_user d (lower (strip (lr_username p))) h s = Returned (Some u) \<and>
          (u_status u = Some False \<or> pwd_verify d pw (u_password_hash u) = Some False)))"
  have "\<exists>cs. login d ip p s =
    (Inl InvalidCredentials,
     s\<lparr>audit_logs := audit_logs s @
        [login_failed_entry (lower (strip (lr_username p))) (strip (lr_hospital_id p)) ip]\<rparr>, cs)"
    using a by (intro login_user_failure [where pw = pw and h = h]) simp_all
  then show "\<exists>cs. login d ip p s =
         (Inl InvalidCredentials,
          s\<lparr>audit_logs := audit_logs s @
             [\<lparr>a_user_id = None, a_action = ''LOGIN_FAILED'',
               a_details = Some [(''username'', lower (strip (lr_username p))),
                                 (''hospital_id'', strip (lr_hospital_id p))],
               a_ip_address = ip\<rparr>]\<rparr>,
          cs)"
    unfolding login_failed_entry_def .
next
  assume a: "lr_password p = Some pw \<and> length (encode_utf8 pw) \<le> 72 \<and>
    find_hospital d (strip (lr_hospital_id p)) s = Returned (Some h) \<and> h_is_active h \<noteq> Some False \<and>
    find_user d (lower (strip (lr_username p))) h s = Returned (Some u) \<and>
    u_status u \<noteq> Some False \<and> pwd_verify d pw (u_password_hash u) = Some True"
  have l: "login d ip p s =
    login_succeeded d (lower (strip (lr_username p))) (strip (lr_hospital_id p)) ip h u s
      [VerifyCall pw (u_password_hash u)]"
    using a by (intro login_success) simp_all
  define tok :: token_response where
    "tok = \<lparr>tr_access_token = create_access_token d (u_id u) (u_role u) (strip (lr_hospital_id p)),
           tr_role = u_role u, tr_full_name = u_full_name u,
           tr_hospital_id = strip (lr_hospital_id p)\<rparr>"
  define s' where
    "s' = s\<lparr>users := update_first (login_user_match d (lower (strip (lr_username p))) h)
                    (\<lambda>r. r\<lparr>u_last_login := Some (utcnow d)\<rparr>) (users s),
        audit_logs := audit_logs s @ [login_success_entry u ip]\<rparr>"
  have "login d ip p s = (Inr tok, s', [VerifyCall pw (u_password_hash u)]) \<and>
         hospitals s' = hospitals s \<and>
         audit_logs s' = audit_logs s @
           [\<lparr>a_user_id = Some (u_id u), a_action = ''LOGIN_SUCCESS'', a_details = None,
             a_ip_address = ip\<rparr>]"
    unfolding l by (simp add: login_succeeded_def tok_def s'_def login_success_entry_def)
  then show "\<exists>tok s'. login d ip p s = (Inr tok, s', [VerifyCall pw (u_password_hash u)]) \<and>
         hospitals s' = hospitals s \<and>
         audit_logs s' = audit_logs s @
           [\<lparr>a_user_id = Some (u_id u), a_action = ''LOGIN_SUCCESS'', a_details = None,
             a_ip_address = ip\<rparr>]"
    by (intro exI)
qed


theorem login_audit_row_witness:
  "login example_deps ''10.0.0.9'' login_long db_h1 = (Inl InvalidCredentials, db_h1, []) \<and>
   (\<exists>cs. login example_deps ''10.0.0.9'' login_guess db_h1 =
      (Inl InvalidCredentials,
       db_h1\<lparr>audit_logs := audit_logs db_h1 @
         [\<lparr>a_user_id = None, a_action = ''LOGIN_FAILED'',
           a_details = Some [(''username'', ''admin''), (''hospital_id'', ''h1'')],
           a_ip_address = ''10.0.0.9''\<rparr>]\<rparr>,
       cs)) \<and>
   (\<exists>tok s'. login example_deps ''10.0.0.9'' login_h1 db_h1 =
        (Inr tok, s', [VerifyCall ''pw1'' ''$2b$pw1'']) \<and>
      hospitals s' = hospitals db_h1 \<and>
      audit_logs s' = audit_logs db_h1 @
        [\<lparr>a_user_id = Some 1, a_action = ''LOGIN_SUCCESS'', a_details = None,
          a_ip_address = ''10.0.0.9''\<rparr>])"
proof -
  note t = login_audit_row [where d = example_deps and ip = "''10.0.0.9''" and s = db_h1
      and h = hospital_h1]
  have g: "lr_password login_long = None \<or>
      (\<exists>pw. lr_password login_long = Some pw \<and> 72 < length (encode_utf8 pw))"
  proof -
    have "lr_password login_long = Some long_password \<and> 72 < length (encode_utf8 long_password)"
      by code_simp
    then show ?thesis by blast
  qed
  have r1: "login example_deps ''10.0.0.9'' login_long db_h1 = (Inl InvalidCredentials, db_h1, [])"
    by (rule t [where p = login_long, THEN conjunct1, THEN mp, OF g])
  have f1: "lr_password login_guess = Some ''guess''" by code_simp
  have f2: "length (encode_utf8 ''guess'') \<le> 72" by code_simp
  have f3: "find_hospital example_deps (strip (lr_hospital_id login_guess)) db_h1 = Returned (Some hospital_h1)"
    by code_simp
  have f4: "h_is_active hospital_h1 \<noteq> Some False" by code_simp
  have f5: "find_user example_deps (lower (strip (lr_username login_guess))) hospital_h1 db_h1 = Returned (Some admin_h1) \<and>
      (u_status admin_h1 = Some False \<or>
       pwd_verify example_deps ''guess'' (u_password_hash admin_h1) = Some False)"
    by code_simp
  have f6: "find_user example_deps (lower (strip (lr_username login_guess))) hospital_h1 db_h1 = Returned None \<or>
     (\<exists>u. find_user example_deps (lower (strip (lr_username login_guess))) hospital_h1 db_h1 = Returned (Some u) \<and>
          (u_status u = Some False \<or>
           pwd_verify example_deps ''guess'' (u_password_hash u) = Some False))"
    using f5 by blast
  have e1: "lower (strip (lr_username login_guess)) = ''admin''" by code_simp
  have e2: "strip (lr_hospital_id login_guess) = ''h1''" by code_simp
  have cf: "lr_password login_guess = Some ''guess'' \<and> length (encode_utf8 ''guess'') \<le> 72 \<and>
    find_hospital example_deps (strip (lr_hospital_id login_guess)) db_h1 = Returned (Some hospital_h1) \<and>
    h_is_active hospital_h1 \<noteq> Some False \<and>
    (find_user example_deps (lower (strip (lr_username login_guess))) hospital_h1 db_h1 = Returned None \<or>
     (\<exists>u. find_user example_deps (lower (strip (lr_username login_guess))) hospital_h1 db_h1 = Returned (Some u) \<and>
          (u_status u = Some False \<or>
           pwd_verify example_deps ''guess'' (u_password_hash u) = Some False)))"
    using f1 f2 f3 f4 f6 by (intro conjI)
  have r2: "\<exists>cs. login example_deps ''10.0.0.9'' login_guess db_h1 =
      (Inl InvalidCredentials,
       db_h1\<lparr>audit_logs := audit_logs db_h1 @
         [\<lparr>a_user_id = None, a_action = ''LOGIN_FAILED'',
           a_details = Some [(''username'', ''admin''), (''hospital_id'', ''h1'')],
           a_ip_address = ''10.0.0.9''\<rparr>]\<rparr>,
       cs)"
    using t [where p = login_guess and pw = "''guess''", THEN conjunct2, THEN conjunct1,
        THEN mp, OF cf]
    unfolding e1 e2 .
  have s1: "lr_password login_h1 = Some ''pw1''" by code_simp
  have s2: "length (encode_utf8 ''pw1'') \<le> 72" by code_simp
  have s3: "find_hospital example_deps (strip (lr_hospital_id login_h1)) db_h1 = Returned (Some hospital_h1)"
    by code_simp
  have s5: "find_user example_deps (lower (strip (lr_username login_h1))) hospital_h1 db_h1 = Returned (Some admin_h1)"
    by code_simp
  have s6: "u_status admin_h1 \<noteq> Some False" by code_simp
  have s7: "pwd_verify example_deps ''pw1'' (u_password_hash admin_h1) = Some True"
    by code_simp
  have e3: "u_password_hash admin_h1 = ''$2b$pw1''" by code_simp
  have e4: "u_id admin_h1 = 1" by code_simp
  have cs: "lr_password login_h1 = Some ''pw1'' \<and> length (encode_utf8 ''pw1'') \<le> 72 \<and>
    find_hospital example_deps (strip (lr_hospital_id login_h1)) db_h1 = Returned (Some hospital_h1) \<and>
    h_is_active hospital_h1 \<noteq> Some False \<and>
    find_user example_deps (lower (strip (lr_username login_h1))) hospital_h1 db_h1 = Returned (Some admin_h1) \<and>
    u_status admin_h1 \<noteq> Some False \<and>
    pwd_verify example_deps ''pw1'' (u_password_hash admin_h1) = Some True"
    using s1 s2 s3 f4 s5 s6 s7 by (intro conjI)
  have r3: "\<exists>tok s'. login example_deps ''10.0.0.9'' login_h1 db_h1 =
        (Inr tok, s', [VerifyCall ''pw1'' ''$2b$pw1'']) \<and>
      hospitals s' = hospitals db_h1 \<and>
      audit_logs s' = audit_logs db_h1 @
        [\<lparr>a_user_id = Some 1, a_action = ''LOGIN_SUCCESS'', a_details = None,
          a_ip_address = ''10.0.0.9''\<rparr>]"
    using t [where p = login_h1 and pw = "''pw1''" and u = admin_h1, THEN conjunct2,
        THEN conjunct2, THEN mp, OF cs]
    unfolding e3 e4 .
  from r1 r2 r3 show ?thesis by (intro conjI)
qed

text \<open>
  Two requests that end in a 401 with no audit row: one with a password of 74 bytes, one
  for a hospital that is not registered.
\<close>

theorem login_without_audit_row_counterexample:
  "login example_deps ''10.0.0.9'' login_long db_h1 = (Inl InvalidCredentials, db_h1, []) \<and>
   login example_deps ''10.0.0.9'' login_nowhere db_h1 = (Inl InvalidCredentials, db_h1, []) \<and>
   audit_logs db_h1 = []"
  by code_simp


section \<open>Hospital registration\<close>

text \<open>
  C6. A registration whose trimmed tenant id the duplicate check matches with a registered
  hospital (the \<open>lower()\<close> of the datastore, applied to the stored id, gives the
  lowercased id of the request) fails and leaves the datastore as it was, before the hasher
  is called. When the request carries the bootstrap secret and a password of at most 72
  bytes (the two checks that come first) and the datastore accepts the id as the parameter
  of the query, the failure is the 409 \<open>Hospital ID already exists\<close>. Hence, once a
  registration has succeeded, every later request of that kind for an id that the
  duplicate check matches with the registered one is answered by that 409 and changes
  nothing.
\<close>

theorem duplicate_hospital_conflict:
  "(h \<in> set (hospitals s) \<and>
    sql_lower d (h_hospital_id h) = lower (strip (hc_hospital_id p)) \<longrightarrow>
      (\<exists>e. register_hospital d env p s = (Inl e, s, []))) \<and>
   (h \<in> set (hospitals s) \<and>
    sql_lower d (h_hospital_id h) = lower (strip (hc_hospital_id p)) \<and>
    pg_text (lower (strip (hc_hospital_id p))) \<and>
    hc_register_secret p = register_secret d \<and>
    hc_admin_password p = Some pw \<and> length (encode_utf8 pw) \<le> 72 \<longrightarrow>
      register_hospital d env p s = (Inl HospitalIdExists, s, [])) \<and>
   (register_hospital d env p s = (Inr m, t, cs) \<and>
    (\<forall>a\<in>set attempts.
       sql_lower d (strip (hc_hospital_id p)) = lower (strip (hc_hospital_id (snd a))) \<and>
       pg_text (lower (strip (hc_hospital_id (snd a)))) \<and>
       hc_register_secret (snd a) = register_secret d \<and>
       (\<exists>pw'. hc_admin_password (snd a) = Some pw' \<and> length (encode_utf8 pw') \<le> 72)) \<longrightarrow>
      register_all d attempts t = (replicate (length attempts) (Inl HospitalIdExists), t))"
proof (intro conjI impI)
  assume "h \<in> set (hospitals s) \<and>
    sql_lower d (h_hospital_id h) = lower (strip (hc_hospital_id p))"
  then show "\<exists>e. register_hospital d env p s = (Inl e, s, [])"
    by (elim conjE) (rule register_hospital_existing)
next
  assume a: "h \<in> set (hospitals s) \<and>
    sql_lower d (h_hospital_id h) = lower (strip (hc_hospital_id p)) \<and>
    pg_text (lower (strip (hc_hospital_id p))) \<and>
    hc_register_secret p = register_secret d \<and>
    hc_admin_password p = Some pw \<and> length (encode_utf8 pw) \<le> 72"
  then have "\<exists>h'. find_hospital d (strip (hc_hospital_id p)) s = Returned (Some h')"
    by (elim conjE) (rule find_hospital_mem_text)
  then obtain h' where "find_hospital d (strip (hc_hospital_id p)) s = Returned (Some h')" ..
  with a show "register_hospital d env p s = (Inl HospitalIdExists, s, [])"
    by (intro register_hospital_conflict [where pw = pw and h = h']) simp_all
next
  assume a: "register_hospital d env p s = (Inr m, t, cs) \<and>
    (\<forall>a\<in>set attempts.
       sql_lower d (strip (hc_hospital_id p)) = lower (strip (hc_hospital_id (snd a))) \<and>
       pg_text (lower (strip (hc_hospital_id (snd a)))) \<and>
       hc_register_secret (snd a) = register_secret d \<and>
       (\<exists>pw'. hc_admin_password (snd a) = Some pw' \<and> length (encode_utf8 pw') \<le> 72))"
  then have reg: "register_hospital d env p s = (Inr m, t, cs)" by simp
  have "\<forall>a\<in>set attempts.
      (\<exists>h. find_hospital d (strip (hc_hospital_id (snd a))) t = Returned (Some h)) \<and>
      hc_register_secret (snd a) = register_secret d \<and>
      (\<exists>pw. hc_admin_password (snd a) = Some pw \<and> length (encode_utf8 pw) \<le> 72)"
  proof
    fix x assume "x \<in> set attempts"
    with a have x:
      "sql_lower d (strip (hc_hospital_id p)) = lower (strip (hc_hospital_id (snd x)))"
      "pg_text (lower (strip (hc_hospital_id (snd x))))"
      "hc_register_secret (snd x) = register_secret d"
      "\<exists>pw. hc_admin_password (snd x) = Some pw \<and> length (encode_utf8 pw) \<le> 72"
      by simp_all
    from register_hospital_then_found [OF reg x(1,2)] x(3,4)
    show "(\<exists>h. find_hospital d (strip (hc_hospital_id (snd x))) t = Returned (Some h)) \<and>
      hc_register_secret (snd x) = register_secret d \<and>
      (\<exists>pw. hc_admin_password (snd x) = Some pw \<and> length (encode_utf8 pw) \<le> 72)"
      by (intro conjI)
  qed
  then show "register_all d attempts t = (replicate (length attempts) (Inl HospitalIdExists), t)"
    by (rule register_all_conflicts)
qed

theorem duplicate_hospital_conflict_witness:
  "hospital_h1 \<in> set (hospitals db_h1) \<and>
   sql_lower example_deps (h_hospital_id hospital_h1) =
     lower (strip (hc_hospital_id register_h1_upper)) \<and>
   register_hospital example_deps all_return register_h1_upper db_h1 =
     (Inl HospitalIdExists, db_h1, []) \<and>
   register_hospital example_deps all_return register_h1 empty_db =
     (Inr (''Hospital h1 registered successfully'', ''h1''), db_h1, [HashCall ''pw1'']) \<and>
   register_all example_deps [(all_return, register_h1), (refresh_fails, register_h1_upper)] db_h1 =
     ([Inl HospitalIdExists, Inl HospitalIdExists], db_h1)"
proof -
  have m: "hospital_h1 \<in> set (hospitals db_h1)" by code_simp
  have k: "sql_lower example_deps (h_hospital_id hospital_h1) =
      lower (strip (hc_hospital_id register_h1_upper))"
    by code_simp
  have tx: "pg_text (lower (strip (hc_hospital_id register_h1_upper)))" by code_simp
  have sec: "hc_register_secret register_h1_upper = register_secret example_deps" by code_simp
  have pw: "hc_admin_password register_h1_upper = Some ''pw9''" by code_simp
  have len: "length (encode_utf8 ''pw9'') \<le> 72" by code_simp
  have c2: "hospital_h1 \<in> set (hospitals db_h1) \<and>
    sql_lower example_deps (h_hospital_id hospital_h1) =
      lower (strip (hc_hospital_id register_h1_upper)) \<and>
    pg_text (lower (strip (hc_hospital_id register_h1_upper))) \<and>
    hc_register_secret register_h1_upper = register_secret example_deps \<and>
    hc_admin_password register_h1_upper = Some ''pw9'' \<and> length (encode_utf8 ''pw9'') \<le> 72"
    using m k tx sec pw len by (intro conjI)
  have r2: "register_hospital example_deps all_return register_h1_upper db_h1 =
     (Inl HospitalIdExists, db_h1, [])"
    by (rule duplicate_hospital_conflict [where h = hospital_h1 and s = db_h1
        and p = register_h1_upper and d = example_deps and env = all_return and pw = "''pw9''",
        THEN conjunct2, THEN conjunct1, THEN mp, OF c2])
  have first: "register_hospital example_deps all_return register_h1 empty_db =
     (Inr (''Hospital h1 registered successfully'', ''h1''), db_h1, [HashCall ''pw1''])"
    by code_simp
  have later: "\<forall>a\<in>set [(all_return, register_h1), (refresh_fails, register_h1_upper)].
       sql_lower example_deps (strip (hc_hospital_id register_h1)) =
         lower (strip (hc_hospital_id (snd a))) \<and>
       pg_text (lower (strip (hc_hospital_id (snd a)))) \<and>
       hc_register_secret (snd a) = register_secret example_deps \<and>
       (\<exists>pw'. hc_admin_password (snd a) = Some pw' \<and> length (encode_utf8 pw') \<le> 72)"
  proof -
    have "sql_lower example_deps (strip (hc_hospital_id register_h1)) =
         lower (strip (hc_hospital_id register_h1)) \<and>
       pg_text (lower (strip (hc_hospital_id register_h1))) \<and>
       hc_register_secret register_h1 = register_secret example_deps \<and>
       hc_admin_password register_h1 = Some ''pw1'' \<and> length (encode_utf8 ''pw1'') \<le> 72"
      by code_simp
    moreover have "sql_lower example_deps (strip (hc_hospital_id register_h1)) =
         lower (strip (hc_hospital_id register_h1_upper)) \<and>
       pg_text (lower (strip (hc_hospital_id register_h1_upper))) \<and>
       hc_register_secret register_h1_upper = register_secret example_deps \<and>
       hc_admin_password register_h1_upper = Some ''pw9'' \<and> length (encode_utf8 ''pw9'') \<le> 72"
      by code_simp
    ultimately show ?thesis by simp
  qed
  have e: "replicate (length [(all_return, register_h1), (refresh_fails, register_h1_upper)])
      (Inl HospitalIdExists :: error + string \<times> string) =
      [Inl HospitalIdExists, Inl HospitalIdExists]"
    by simp
  have r3: "register_all example_deps
      [(all_return, register_h1), (refresh_fails, register_h1_upper)] db_h1 =
     ([Inl HospitalIdExists, Inl HospitalIdExists], db_h1)"
    using duplicate_hospital_conflict [where s = empty_db and p = register_h1
        and d = example_deps and env = all_return and t = db_h1
        and attempts = "[(all_return, register_h1), (refresh_fails, register_h1_upper)]",
        THEN conjunct2, THEN conjunct2, THEN mp, OF conjI [OF first later]]
    unfolding e .
  from m k r2 first r3 show ?thesis by (intro conjI)
qed

text \<open>
  Two requests for the registered id \<open>h1\<close>, in capitals and between spaces: with a
  wrong bootstrap secret the answer is 403, and with a password that is not a string it is
  400, not 409.
\<close>

theorem duplicate_wrong_secret_counterexample:
  "hospital_h1 \<in> set (hospitals db_h1) \<and>
   lower (h_hospital_id hospital_h1) = lower (strip (hc_hospital_id register_h1_guess)) \<and>
   register_hospital example_deps all_return register_h1_guess db_h1 =
     (Inl InvalidRegisterSecret, db_h1, []) \<and>
   status_code InvalidRegisterSecret = 403 \<and>
   register_hospital example_deps all_return (register_h1_upper\<lparr>hc_admin_password := None\<rparr>)
     db_h1 = (Inl InvalidPasswordType, db_h1, []) \<and>
   status_code InvalidPasswordType = 400"
  by code_simp

text \<open>
  C7. The registration of \<open>h1\<close> in an empty datastore, where the flush and the commit
  return and the \<open>db.refresh(hospital)\<close> after the commit raises: the handler answers
  500 and the datastore holds the hospital and its admin. The lemmas
  \<open>register_hospital_atomic\<close>, \<open>register_hospital_rollback\<close> and
  \<open>register_hospital_raised\<close> state what holds of the transaction: the two rows are
  committed together or not at all, and an exception of the flush or of the commit leaves
  the datastore as it was, with 409 for an \<open>IntegrityError\<close> and 500 otherwise.
\<close>

theorem register_hospital_refresh_failure:
  "register_hospital example_deps refresh_fails register_h1 empty_db =
     (Inl UnexpectedServerError, db_h1, [HashCall ''pw1'']) \<and>
   status_code UnexpectedServerError = 500 \<and>
   hospitals db_h1 = [hospital_h1] \<and> users db_h1 = [admin_h1] \<and> hospitals empty_db = []"
  by code_simp


text \<open>
  C9. Whenever \<open>register_hospital\<close> succeeds, or changes the datastore at all, it has
  appended one hospital and one admin user, and the email of the admin is the email of
  the hospital: the \<open>email\<close> of the payload, trimmed and in lower case. The payload has
  one email field, read for both rows.
\<close>

theorem admin_email_is_hospital_email:
  assumes "register_hospital d env p s = (r, s', cs)" and "(\<exists>m. r = Inr m) \<or> s' \<noteq> s"
  shows "\<exists>h a. hospitals s' = hospitals s @ [h] \<and> users s' = users s @ [a] \<and>
     h_email h = lower (strip (hc_email p)) \<and> u_email a = Some (lower (strip (hc_email p))) \<and>
     u_hospital_id a = h_id h \<and> u_role a = ''admin''"
proof -
  have "\<exists>hp. s' = s\<lparr>hospitals := hospitals s @ [new_hospital d p s],
                 users := users s @ [new_admin d p hp (new_hospital d p s) s]\<rparr>"
    using assms(2)
  proof
    assume "\<exists>m. r = Inr m"
    then obtain m where "r = Inr m" ..
    with assms(1) have "register_hospital d env p s = (Inr m, s', cs)" by simp
    from register_hospital_Inr [OF this] show ?thesis by blast
  next
    assume "s' \<noteq> s"
    with register_hospital_store [OF assms(1)] show ?thesis by simp
  qed
  then obtain hp where s': "s' = s\<lparr>hospitals := hospitals s @ [new_hospital d p s],
                 users := users s @ [new_admin d p hp (new_hospital d p s) s]\<rparr>" ..
  have "hospitals s' = hospitals s @ [new_hospital d p s] \<and>
     users s' = users s @ [new_admin d p hp (new_hospital d p s) s] \<and>
     h_email (new_hospital d p s) = lower (strip (hc_email p)) \<and>
     u_email (new_admin d p hp (new_hospital d p s) s) = Some (lower (strip (hc_email p))) \<and>
     u_hospital_id (new_admin d p hp (new_hospital d p s) s) = h_id (new_hospital d p s) \<and>
     u_role (new_admin d p hp (new_hospital d p s) s) = ''admin''"
    using new_rows_email [of d p s hp] by (simp add: s')
  then show ?thesis by (intro exI)
qed

theorem admin_email_is_hospital_email_witness:
  "register_hospital example_deps all_return register_h1 empty_db =
     (Inr (''Hospital h1 registered successfully'', ''h1''), db_h1, [HashCall ''pw1'']) \<and>
   hc_email register_h1 = '' Info@H1.example '' \<and>
   (\<exists>h a. hospitals db_h1 = hospitals empty_db @ [h] \<and> users db_h1 = users empty_db @ [a] \<and>
     h_email h = ''info@h1.example'' \<and> u_email a = Some ''info@h1.example'' \<and>
     u_hospital_id a = h_id h \<and> u_role a = ''admin'')"
proof -
  have reg: "register_hospital example_deps all_return register_h1 empty_db =
     (Inr (''Hospital h1 registered successfully'', ''h1''), db_h1, [HashCall ''pw1''])"
    by code_simp
  have ok: "(\<exists>m. (Inr (''Hospital h1 registered successfully'', ''h1'')
      :: error + string \<times> string) = Inr m) \<or> db_h1 \<noteq> empty_db"
    by blast
  have em: "hc_email register_h1 = '' Info@H1.example ''" by code_simp
  have e: "lower (strip (hc_email register_h1)) = ''info@h1.example''" by code_simp
  have "\<exists>h a. hospitals db_h1 = hospitals empty_db @ [h] \<and> users db_h1 = users empty_db @ [a] \<and>
     h_email h = ''info@h1.example'' \<and> u_email a = Some ''info@h1.example'' \<and>
     u_hospital_id a = h_id h \<and> u_role a = ''admin''"
    using admin_email_is_hospital_email [OF reg ok] unfolding e .
  with reg em show ?thesis by (intro conjI)
qed


section \<open>Registration, then login\<close>

text \<open>
  Where the \<open>lower()\<close> of the datastore agrees with Python's on the stored tenant id
  and leaves the stored username, which Python has lowercased, as it is, registration and
  login normalize alike. After a registration has succeeded, a login succeeds whenever its
  tenant id equals the registered one up to surrounding white space and letter case, its
  username equals the admin's up to surrounding white space and letter case, and its
  password is the admin's. It is assumed that the hasher verifies the password against the
  hash it produced for it, that the flag columns of new rows are not false by default, and
  that before the registration every user row refers to a hospital row (the foreign key).
\<close>

lemma login_after_register:
  assumes reg: "register_hospital d env rp s = (Inr m, t, cs)"
    and fk: "\<forall>u\<in>set (users s). u_hospital_id u \<in> h_id ` set (hospitals s)"
    and pw: "hc_admin_password rp = Some pw" "lr_password lp = Some pw"
    and hasher: "pwd_hash d pw = Some hp" "pwd_verify d pw hp = Some True"
    and defaults: "hospital_is_active_default d \<noteq> Some False"
      "user_status_default d \<noteq> Some False"
    and agree: "sql_lower d (strip (hc_hospital_id rp)) = lower (strip (hc_hospital_id rp))"
      "sql_lower d (lower (strip (hc_admin_username rp))) = lower (strip (hc_admin_username rp))"
    and hid: "lower (strip (lr_hospital_id lp)) = lower (strip (hc_hospital_id rp))"
    and un: "lower (strip (lr_username lp)) = lower (strip (hc_admin_username rp))"
  shows "\<exists>tok t' cs'. login d ip lp t = (Inr tok, t', cs') \<and>
     tr_role tok = ''admin'' \<and> tr_hospital_id tok = strip (lr_hospital_id lp)"
proof -
  from register_hospital_Inr [OF reg] obtain pw' hp' where
    r: "hc_admin_password rp = Some pw'" "length (encode_utf8 pw') \<le> 72"
      "find_hospital d (strip (hc_hospital_id rp)) s = Returned None" "pwd_hash d pw' = Some hp'"
      "user_storable (new_admin d rp hp' (new_hospital d rp s) s)"
      "t = s\<lparr>hospitals := hospitals s @ [new_hospital d rp s],
            users := users s @ [new_admin d rp hp' (new_hospital d rp s) s]\<rparr>"
    by blast
  from r(1) pw(1) have "pw' = pw" by simp
  with r(4) hasher(1) have "hp' = hp" by simp
  note r = r [unfolded \<open>pw' = pw\<close> \<open>hp' = hp\<close>]
  define nh where "nh = new_hospital d rp s"
  define na where "na = new_admin d rp hp nh s"
  have hs: "hospitals t = hospitals s @ [new_hospital d rp s]" by (simp add: r(6))
  have us: "users t = users s @ [new_admin d rp hp (new_hospital d rp s) s]" by (simp add: r(6))
  have f1: "find_hospital d (strip (lr_hospital_id lp)) t = Returned (Some nh)"
    unfolding nh_def by (rule find_hospital_after_register [OF r(3) agree(1) hid hs])
  have f2: "h_is_active nh \<noteq> Some False"
    using defaults(1) by (simp add: nh_def new_hospital_def)
  have f3: "find_user d (lower (strip (lr_username lp))) nh t = Returned (Some na)"
    unfolding nh_def na_def by (rule find_admin_after_register [OF fk un agree(2) r(5) us])
  have f4: "u_status na \<noteq> Some False"
    using defaults(2) by (simp add: na_def new_admin_def)
  have f5: "pwd_verify d pw (u_password_hash na) = Some True"
    using hasher(2) by (simp add: na_def new_admin_def)
  have "login d ip lp t =
    login_succeeded d (lower (strip (lr_username lp))) (strip (lr_hospital_id lp)) ip nh na t
      [VerifyCall pw (u_password_hash na)]"
    by (rule login_success [OF pw(2) r(2) f1 f2 f3 f4 f5])
  then have "\<exists>t' cs'. login d ip lp t =
      (Inr \<lparr>tr_access_token = create_access_token d (u_id na) (u_role na) (strip (lr_hospital_id lp)),
           tr_role = u_role na, tr_full_name = u_full_name na,
           tr_hospital_id = strip (lr_hospital_id lp)\<rparr>, t', cs')"
    by (simp add: login_succeeded_def)
  then obtain t' cs' where "login d ip lp t =
      (Inr \<lparr>tr_access_token = create_access_token d (u_id na) (u_role na) (strip (lr_hospital_id lp)),
           tr_role = u_role na, tr_full_name = u_full_name na,
           tr_hospital_id = strip (lr_hospital_id lp)\<rparr>, t', cs')"
    by blast
  moreover have "u_role na = ''admin''" by (simp add: na_def new_admin_def)
  ultimately have "login d ip lp t =
      (Inr \<lparr>tr_access_token = create_access_token d (u_id na) (u_role na) (strip (lr_hospital_id lp)),
           tr_role = u_role na, tr_full_name = u_full_name na,
           tr_hospital_id = strip (lr_hospital_id lp)\<rparr>, t', cs') \<and>
     tr_role \<lparr>tr_access_token = create_access_token d (u_id na) (u_role na) (strip (lr_hospital_id lp)),
           tr_role = u_role na, tr_full_name = u_full_name na,
           tr_hospital_id = strip (lr_hospital_id lp)\<rparr> = ''admin'' \<and>
     tr_hospital_id \<lparr>tr_access_token = create_access_token d (u_id na) (u_role na) (strip (lr_hospital_id lp)),
           tr_role = u_role na, tr_full_name = u_full_name na,
           tr_hospital_id = strip (lr_hospital_id lp)\<rparr> = strip (lr_hospital_id lp)"
    by simp
  then show ?thesis by (intro exI)
qed

text \<open>
  The scenario of the specification: \<open>h1\<close> registers with the admin \<open>admin\<close>, and the
  login as \<open>Admin\<close> of \<open>H1\<close> followed by a space succeeds.
\<close>

lemma login_after_register_h1:
  "hc_hospital_id register_h1 = ''h1'' \<and> hc_admin_username register_h1 = ''admin'' \<and>
   lr_hospital_id login_h1 = ''H1 '' \<and> lr_username login_h1 = ''Admin'' \<and>
   fst (login example_deps ''10.0.0.9'' login_h1
     (fst (snd (register_hospital example_deps all_return register_h1 db_others)))) =
     Inr \<lparr>tr_access_token = ''admin@H1'', tr_role = ''admin'',
          tr_full_name = Some ''Administrator'', tr_hospital_id = ''H1''\<rparr>"
  by code_simp

text \<open>
  C3. A database under the \<open>C\<close> locale, whose \<open>lower()\<close> leaves the letters beyond
  ASCII as they are. A hospital registers under an id that begins with a capital E with
  acute accent. The login with the very same id, username and password is answered by the
  401: the datastore compares the stored id, which keeps its capital, with the id that
  Python has lowercased, and the hospital is not found.
\<close>

theorem login_misses_registered_hospital:
  "fst (register_hospital c_locale_deps all_return register_e1 empty_db) =
     Inr (''Hospital '' @ hc_hospital_id register_e1 @ '' registered successfully'',
          hc_hospital_id register_e1) \<and>
   map h_hospital_id
     (hospitals (fst (snd (register_hospital c_locale_deps all_return register_e1 empty_db))))
     = [hc_hospital_id register_e1] \<and>
   lr_hospital_id login_e1 = hc_hospital_id register_e1 \<and>
   lr_username login_e1 = hc_admin_username register_e1 \<and>
   lr_password login_e1 = hc_admin_password register_e1 \<and>
   fst (login c_locale_deps ''10.0.0.9'' login_e1
     (fst (snd (register_hospital c_locale_deps all_return register_e1 empty_db)))) =
     Inl InvalidCredentials"
  by code_simp

end
